theory Spec2Isabelle
  imports Complex_Main "HOL-Library.AList" "HOL-Library.Char_ord" "HOL-Library.List_Lexorder"
begin

section \<open>Values, dictionaries and errors\<close>

text \<open>
  The fleet manager keeps every entity as a JSON object, that is a Python \<open>dict\<close> from
  strings to JSON values. A value is modelled by \<open>jval\<close>; the type parameter \<open>'f\<close> is
  the type of floating point numbers, left abstract: nothing below depends on how a
  float is rounded, only on the operations the source applies to it.
  A dict is an association list with distinct keys in insertion order:
  \<open>AList.update\<close> overwrites in place and appends a new key at the end, as an
  assignment \<open>d[k] = v\<close> does.
\<close>

datatype 'f jval =
    JNull
  | JBool bool
  | JInt int
  | JFloat 'f
  | JStr string
  | JList "'f jval list"

type_synonym 'f jdict = "(string \<times> 'f jval) list"

datatype error = KeyError string | TypeError | ValueError

text \<open>\<open>d.get(k)\<close>, \<open>d[k]\<close> (which raises \<open>KeyError\<close>), \<open>d[k] = v\<close> and \<open>d.update(u)\<close>.\<close>

definition dict_get :: "(string \<times> 'v) list \<Rightarrow> string \<Rightarrow> 'v option" where
  "dict_get d k = map_of d k"

definition dict_item :: "(string \<times> 'v) list \<Rightarrow> string \<Rightarrow> error + 'v" where
  "dict_item d k = (case map_of d k of None \<Rightarrow> Inl (KeyError k) | Some v \<Rightarrow> Inr v)"

definition dict_set :: "(string \<times> 'v) list \<Rightarrow> string \<Rightarrow> 'v \<Rightarrow> (string \<times> 'v) list" where
  "dict_set d k v = AList.update k v d"

definition dict_update :: "(string \<times> 'v) list \<Rightarrow> (string \<times> 'v) list \<Rightarrow> (string \<times> 'v) list" where
  "dict_update d u = fold (\<lambda>(k, v) acc. AList.update k v acc) u d"

text \<open>Python's truth value of a JSON value (\<open>if x:\<close>, \<open>not x\<close>, \<open>all([...])\<close>).\<close>

fun truthy :: "('f::zero) jval \<Rightarrow> bool" where
  "truthy JNull = False"
| "truthy (JBool b) = b"
| "truthy (JInt n) = (n \<noteq> 0)"
| "truthy (JFloat x) = (x \<noteq> 0)"
| "truthy (JStr s) = (s \<noteq> [])"
| "truthy (JList xs) = (xs \<noteq> [])"

section \<open>Decimal formatting\<close>

text \<open>
  \<open>str_nat n\<close> is the decimal numeral of \<open>n\<close> (\<open>str(n)\<close> for \<open>n \<ge> 0\<close>) and
  \<open>zfill w n\<close> is the format \<open>%0wd\<close>: zeros are added on the left up to width \<open>w\<close>,
  and a longer numeral is printed in full.
\<close>

definition digit_char :: "nat \<Rightarrow> char" where
  "digit_char d = ''0123456789'' ! d"

fun str_nat :: "nat \<Rightarrow> string" where
  "str_nat n = (if n < 10 then [digit_char n] else str_nat (n div 10) @ [digit_char (n mod 10)])"

declare str_nat.simps [simp del]

definition zfill :: "nat \<Rightarrow> nat \<Rightarrow> string" where
  "zfill w n = replicate (w - length (str_nat n)) (CHR ''0'') @ str_nat n"

definition str_int :: "int \<Rightarrow> string" where
  "str_int i = (if i < 0 then CHR ''-'' # str_nat (nat (- i)) else str_nat (nat i))"

section \<open>Dates and times\<close>

text \<open>
  A naive \<open>datetime\<close> with its civil fields. \<open>isoformat\<close> is the standard library's:
  \<open>YYYY-MM-DDTHH:MM:SS\<close>, followed by \<open>.ffffff\<close> when the microsecond is not zero.
  \<open>toordinal\<close> is the proleptic Gregorian day number, so that the difference of two
  dates in days is the difference of their ordinals, and \<open>timedelta_days a b\<close> is
  \<open>(a - b).days\<close>: the difference in microseconds, divided by a day rounding down.
\<close>

record date =
  year :: nat
  month :: nat
  day :: nat

record datetime = date +
  hour :: nat
  minute :: nat
  second :: nat
  microsecond :: nat

definition date_isoformat :: "'a date_scheme \<Rightarrow> string" where
  "date_isoformat d = zfill 4 (year d) @ ''-'' @ zfill 2 (month d) @ ''-'' @ zfill 2 (day d)"

definition time_isoformat :: "nat \<Rightarrow> nat \<Rightarrow> nat \<Rightarrow> nat \<Rightarrow> string" where
  "time_isoformat h m sec us =
     zfill 2 h @ '':'' @ zfill 2 m @ '':'' @ zfill 2 sec @
     (if us = 0 then [] else ''.'' @ zfill 6 us)"

definition isoformat :: "datetime \<Rightarrow> string" where
  "isoformat dt =
     date_isoformat dt @ ''T'' @
     time_isoformat (hour dt) (minute dt) (second dt) (microsecond dt)"

text \<open>Dates are compared field by field: year, then month, then day.\<close>

definition date_less :: "'a date_scheme \<Rightarrow> 'b date_scheme \<Rightarrow> bool" where
  "date_less a b =
     (year a < year b \<or>
      (year a = year b \<and> (month a < month b \<or> (month a = month b \<and> day a < day b))))"

definition is_leap :: "nat \<Rightarrow> bool" where
  "is_leap y = (y mod 4 = 0 \<and> (y mod 100 \<noteq> 0 \<or> y mod 400 = 0))"

definition days_before_year :: "nat \<Rightarrow> int" where
  "days_before_year y =
     (let y1 = int y - 1 in y1 * 365 + y1 div 4 - y1 div 100 + y1 div 400)"

definition days_in_month :: "nat \<Rightarrow> nat list" where
  "days_in_month y = [31, if is_leap y then 29 else 28, 31, 30, 31, 30, 31, 31, 30, 31, 30, 31]"

definition days_before_month :: "nat \<Rightarrow> nat \<Rightarrow> int" where
  "days_before_month y m = int (sum_list (take (m - 1) (days_in_month y)))"

definition toordinal :: "'a date_scheme \<Rightarrow> int" where
  "toordinal d = days_before_year (year d) + days_before_month (year d) (month d) + int (day d)"

definition total_microseconds :: "datetime \<Rightarrow> int" where
  "total_microseconds dt =
     ((toordinal dt * 86400 + int (hour dt) * 3600 + int (minute dt) * 60 + int (second dt))
        * 1000000 + int (microsecond dt))"

definition timedelta_days :: "datetime \<Rightarrow> datetime \<Rightarrow> int" where
  "timedelta_days a b = (total_microseconds a - total_microseconds b) div 86400000000"

text \<open>
  \<open>datetime.fromisoformat\<close> is the standard library's parser. The functions that call
  it take it as the parameter \<open>parse\<close>: a string that it rejects (\<open>None\<close>) raises
  \<open>ValueError\<close>, and an argument that is not a string raises \<open>TypeError\<close>.
\<close>

type_synonym parser = "string \<Rightarrow> datetime option"

definition fromisoformat :: "parser \<Rightarrow> 'f jval \<Rightarrow> error + datetime" where
  "fromisoformat parse v =
     (case v of
        JStr s \<Rightarrow> (case parse s of None \<Rightarrow> Inl ValueError | Some dt \<Rightarrow> Inr dt)
      | _ \<Rightarrow> Inl TypeError)"

section \<open>The store\<close>

text \<open>
  One JSON file per entity type. A file that is missing or does not parse is \<open>None\<close>;
  \<open>load_data\<close> then returns the default of the type, and \<open>save_data\<close> overwrites
  the file as a whole.
\<close>

type_synonym inventory = "(string \<times> int) list"

record 'f store =
  vehicles_file :: "'f jdict list option"
  maintenance_file :: "'f jdict list option"
  inventory_file :: "inventory option"
  permits_file :: "'f jdict list option"
  token_tax_file :: "'f jdict list option"
  loads_file :: "'f jdict list option"

definition load_data_list :: "'a list option \<Rightarrow> 'a list" where
  "load_data_list f = (case f of None \<Rightarrow> [] | Some xs \<Rightarrow> xs)"

definition load_data_inventory :: "inventory option \<Rightarrow> inventory" where
  "load_data_inventory f =
     (case f of None \<Rightarrow> [(''oil'', 0), (''air_filter'', 0), (''tires'', 0)] | Some stock \<Rightarrow> stock)"

type_synonym 'f outcome = "error + ((bool \<times> string) \<times> 'f store)"

section \<open>Vehicles\<close>

text \<open>
  The duplicate check of \<open>add_vehicle\<close>: the loop reads \<open>vehicle['plate_number']\<close> and
  then \<open>vehicle_data['plate_number']\<close> at every stored vehicle, and stops at the first
  equal pair. The values compared are strings, on which \<open>==\<close> is equality.
\<close>

fun plate_taken :: "'f jdict list \<Rightarrow> 'f jdict \<Rightarrow> error + bool" where
  "plate_taken [] vehicle_data = Inr False"
| "plate_taken (vehicle # rest) vehicle_data =
     (case dict_item vehicle ''plate_number'' of
        Inl e \<Rightarrow> Inl e
      | Inr p \<Rightarrow>
          (case dict_item vehicle_data ''plate_number'' of
             Inl e \<Rightarrow> Inl e
           | Inr q \<Rightarrow> if p = q then Inr True else plate_taken rest vehicle_data))"

definition add_vehicle :: "datetime \<Rightarrow> 'f store \<Rightarrow> 'f jdict \<Rightarrow> 'f outcome" where
  "add_vehicle now s vehicle_data =
     (let vehicles = load_data_list (vehicles_file s) in
      case plate_taken vehicles vehicle_data of
        Inl e \<Rightarrow> Inl e
      | Inr True \<Rightarrow> Inr ((False, ''Vehicle with this plate number already exists''), s)
      | Inr False \<Rightarrow>
          (let vd1 = dict_set vehicle_data ''created_at'' (JStr (isoformat now));
               vd2 = dict_set vd1 ''id'' (JInt (int (length vehicles) + 1))
           in Inr ((True, ''Vehicle added successfully''),
                   s\<lparr>vehicles_file := Some (vehicles @ [vd2])\<rparr>)))"

text \<open>
  \<open>str.upper\<close> on ASCII text, the alphabet of a plate number: the letters \<open>a\<close> to \<open>z\<close>
  are replaced and every other character stays.
\<close>

definition upper_char :: "char \<Rightarrow> char" where
  "upper_char c =
     (case map_of (zip ''abcdefghijklmnopqrstuvwxyz'' ''ABCDEFGHIJKLMNOPQRSTUVWXYZ'') c of
        None \<Rightarrow> c | Some u \<Rightarrow> u)"

definition upper :: "string \<Rightarrow> string" where
  "upper s = map upper_char s"

text \<open>The fields of the form \<open>show_add_vehicle_form\<close> and the record it submits.\<close>

record vehicle_form =
  vf_plate_number :: string
  vf_driver_name :: string
  vf_helper_name :: string
  vf_permit_numbers :: "string list"
  vf_tanker_size :: int
  vf_vehicle_type :: string
  vf_make_model :: string
  vf_year :: int
  vf_engine_type :: string
  vf_status :: string

definition vehicle_form_data :: "vehicle_form \<Rightarrow> 'f jdict" where
  "vehicle_form_data f =
     [(''plate_number'', JStr (upper (vf_plate_number f))),
      (''driver_name'', JStr (vf_driver_name f)),
      (''helper_name'', JStr (vf_helper_name f)),
      (''route_permits'', JList (map JStr (vf_permit_numbers f))),
      (''tanker_size'', JInt (vf_tanker_size f)),
      (''vehicle_type'', JStr (vf_vehicle_type f)),
      (''make_model'', JStr (vf_make_model f)),
      (''year'', JInt (vf_year f)),
      (''engine_type'', JStr (vf_engine_type f)),
      (''status'', JStr (vf_status f))]"

definition show_add_vehicle_form :: "datetime \<Rightarrow> 'f store \<Rightarrow> vehicle_form \<Rightarrow> 'f outcome" where
  "show_add_vehicle_form now s f =
     (if vf_plate_number f = [] \<or> vf_driver_name f = []
      then Inr ((False, ''Plate Number and Driver Name are required fields!''), s)
      else add_vehicle now s (vehicle_form_data f))"


text \<open>
  \<open>update_where key k f rs\<close> is the loop shared by \<open>update_vehicle\<close> and
  \<open>update_load_status\<close>: it reads \<open>r[key]\<close> of each record in turn, changes the first
  record whose key is the string \<open>k\<close> by \<open>f\<close> and stops; \<open>None\<close> when the loop ends
  without a match.
\<close>

fun update_where ::
  "string \<Rightarrow> string \<Rightarrow> ('f jdict \<Rightarrow> 'f jdict) \<Rightarrow> 'f jdict list \<Rightarrow> error + 'f jdict list option"
where
  "update_where key k f [] = Inr None"
| "update_where key k f (r # rs) =
     (case dict_item r key of
        Inl e \<Rightarrow> Inl e
      | Inr v \<Rightarrow>
          if v = JStr k then Inr (Some (f r # rs))
          else (case update_where key k f rs of
                  Inl e \<Rightarrow> Inl e
                | Inr None \<Rightarrow> Inr None
                | Inr (Some rs') \<Rightarrow> Inr (Some (r # rs'))))"

definition update_vehicle :: "datetime \<Rightarrow> 'f store \<Rightarrow> string \<Rightarrow> 'f jdict \<Rightarrow> 'f outcome" where
  "update_vehicle now s plate_number updated_data =
     (let vehicles = load_data_list (vehicles_file s) in
      case update_where ''plate_number'' plate_number
             (\<lambda>vehicle. dict_set (dict_update vehicle updated_data)
                           ''updated_at'' (JStr (isoformat now)))
             vehicles of
        Inl e \<Rightarrow> Inl e
      | Inr (Some vehicles') \<Rightarrow>
          Inr ((True, ''Vehicle updated successfully''), s\<lparr>vehicles_file := Some vehicles'\<rparr>)
      | Inr None \<Rightarrow> Inr ((False, ''Vehicle not found''), s))"

section \<open>Maintenance records and the inventory\<close>

text \<open>
  \<open>d.get(k, default)\<close>, and the integer read from a flag that the source compares with
  a number (\<open>tires_changed\<close>, an integer input of the form; a \<open>bool\<close> is an integer in
  Python). A count that is not an integer is outside the model and reported as
  \<open>TypeError\<close>.
\<close>

definition get_default :: "(string \<times> 'v) list \<Rightarrow> string \<Rightarrow> 'v \<Rightarrow> 'v" where
  "get_default d k dflt = (case map_of d k of None \<Rightarrow> dflt | Some v \<Rightarrow> v)"

fun as_int :: "'f jval \<Rightarrow> error + int" where
  "as_int (JInt n) = Inr n"
| "as_int (JBool b) = Inr (if b then 1 else 0)"
| "as_int _ = Inl TypeError"

definition add_maintenance_record ::
  "datetime \<Rightarrow> ('f::zero) store \<Rightarrow> 'f jdict \<Rightarrow> 'f outcome"
where
  "add_maintenance_record now s maintenance_data =
     (let maintenance_records = load_data_list (maintenance_file s);
          inventory = load_data_inventory (inventory_file s);
          oil_changed = truthy (get_default maintenance_data ''oil_changed'' (JBool False));
          air_filter_changed =
            truthy (get_default maintenance_data ''air_filter_changed'' (JBool False))
      in
      if oil_changed \<and> \<not> get_default inventory ''oil'' 0 > 0
      then Inr ((False, ''Insufficient oil in inventory''), s)
      else
        let inventory1 =
              (if oil_changed
               then dict_set inventory ''oil'' (get_default inventory ''oil'' 0 - 1)
               else inventory)
        in
        if air_filter_changed \<and> \<not> get_default inventory1 ''air_filter'' 0 > 0
        then Inr ((False, ''Insufficient air filters in inventory''), s)
        else
          let inventory2 =
                (if air_filter_changed
                 then dict_set inventory1 ''air_filter''
                        (get_default inventory1 ''air_filter'' 0 - 1)
                 else inventory1)
          in
          case as_int (get_default maintenance_data ''tires_changed'' (JInt 0)) of
            Inl e \<Rightarrow> Inl e
          | Inr tires_changed \<Rightarrow>
              if tires_changed > 0 \<and> \<not> get_default inventory2 ''tires'' 0 \<ge> tires_changed
              then Inr ((False, ''Insufficient tires in inventory''), s)
              else
                let inventory3 =
                      (if tires_changed > 0
                       then dict_set inventory2 ''tires''
                              (get_default inventory2 ''tires'' 0 - tires_changed)
                       else inventory2);
                    s1 = s\<lparr>inventory_file := Some inventory3\<rparr>;
                    md1 = dict_set maintenance_data ''created_at'' (JStr (isoformat now));
                    md2 = dict_set md1 ''id'' (JInt (int (length maintenance_records) + 1))
                in Inr ((True, ''Maintenance record added successfully''),
                        s1\<lparr>maintenance_file := Some (maintenance_records @ [md2])\<rparr>))"

text \<open>
  \<open>update_inventory\<close>: an unknown item starts at 0; any operation other than the
  three named ones leaves the quantity as it is. The call always saves and succeeds.
\<close>

definition update_inventory ::
  "'f store \<Rightarrow> string \<Rightarrow> int \<Rightarrow> string \<Rightarrow> (bool \<times> string) \<times> 'f store"
where
  "update_inventory s item_type quantity operation =
     (let inventory = load_data_inventory (inventory_file s);
          inventory0 =
            (if map_of inventory item_type = None then dict_set inventory item_type 0
             else inventory);
          current = get_default inventory0 item_type 0;
          inventory1 =
            (if operation = ''add'' then dict_set inventory0 item_type (current + quantity)
             else if operation = ''subtract''
               then dict_set inventory0 item_type (max 0 (current - quantity))
             else if operation = ''set'' then dict_set inventory0 item_type quantity
             else inventory0)
      in ((True, ''Inventory updated: '' @ item_type @ '' = '' @
                 str_int (get_default inventory1 item_type 0)),
          s\<lparr>inventory_file := Some inventory1\<rparr>))"

text \<open>A sequence of \<open>subtract\<close> calls, each on the store the previous one saved.\<close>

fun subtract_all :: "'f store \<Rightarrow> (string \<times> int) list \<Rightarrow> bool list \<times> 'f store" where
  "subtract_all s [] = ([], s)"
| "subtract_all s ((item_type, quantity) # calls) =
     (case update_inventory s item_type quantity ''subtract'' of
        ((ok, msg), s') \<Rightarrow> (case subtract_all s' calls of (oks, s'') \<Rightarrow> (ok # oks, s'')))"


section \<open>Expiring documents\<close>

text \<open>
  The loop of \<open>get_expiring_permits\<close> and \<open>get_expiring_taxes\<close> (the two bodies are
  the same): \<open>current_date\<close> is \<open>datetime.now().date()\<close>, the expiry date is parsed
  and its time of day dropped, and the record is kept when the difference in days is at
  most \<open>days_ahead\<close>.
\<close>

definition days_to_expire :: "parser \<Rightarrow> datetime \<Rightarrow> 'f jdict \<Rightarrow> error + int" where
  "days_to_expire parse now doc =
     (case dict_item doc ''expire_date'' of
        Inl e \<Rightarrow> Inl e
      | Inr v \<Rightarrow>
          (case fromisoformat parse v of
             Inl e \<Rightarrow> Inl e
           | Inr expire_date \<Rightarrow> Inr (toordinal expire_date - toordinal now)))"

fun expiring :: "parser \<Rightarrow> datetime \<Rightarrow> int \<Rightarrow> 'f jdict list \<Rightarrow> error + 'f jdict list" where
  "expiring parse now days_ahead [] = Inr []"
| "expiring parse now days_ahead (doc # rest) =
     (case days_to_expire parse now doc of
        Inl e \<Rightarrow> Inl e
      | Inr d \<Rightarrow>
          (case expiring parse now days_ahead rest of
             Inl e \<Rightarrow> Inl e
           | Inr found \<Rightarrow> Inr (if d \<le> days_ahead then doc # found else found)))"

definition get_expiring_permits ::
  "parser \<Rightarrow> datetime \<Rightarrow> 'f store \<Rightarrow> int \<Rightarrow> error + 'f jdict list"
where
  "get_expiring_permits parse now s days_ahead =
     expiring parse now days_ahead (load_data_list (permits_file s))"

definition get_expiring_taxes ::
  "parser \<Rightarrow> datetime \<Rightarrow> 'f store \<Rightarrow> int \<Rightarrow> error + 'f jdict list"
where
  "get_expiring_taxes parse now s days_ahead =
     expiring parse now days_ahead (load_data_list (token_tax_file s))"

section \<open>Maintenance alerts\<close>

text \<open>The comprehension \<open>[m for m in records if m['plate_number'] == plate_number]\<close>.\<close>

fun records_of_plate :: "'f jval \<Rightarrow> 'f jdict list \<Rightarrow> error + 'f jdict list" where
  "records_of_plate plate [] = Inr []"
| "records_of_plate plate (m # rest) =
     (case dict_item m ''plate_number'' of
        Inl e \<Rightarrow> Inl e
      | Inr p \<Rightarrow>
          (case records_of_plate plate rest of
             Inl e \<Rightarrow> Inl e
           | Inr found \<Rightarrow> Inr (if p = plate then m # found else found)))"

text \<open>
  \<open>max(records, key=lambda x: x.get('created_at', ''))\<close>. The keys are compared as
  strings, by code point; a key that is not a string ends in \<open>TypeError\<close>, in the
  comparison or in \<open>fromisoformat\<close> afterwards. \<open>max\<close> keeps the first of several
  maximal elements: the running maximum is replaced only by a strictly greater key.
\<close>

definition created_key :: "'f jdict \<Rightarrow> error + string" where
  "created_key m =
     (case map_of m ''created_at'' of
        None \<Rightarrow> Inr []
      | Some (JStr s) \<Rightarrow> Inr s
      | Some _ \<Rightarrow> Inl TypeError)"

fun max_by_created :: "'f jdict \<times> string \<Rightarrow> 'f jdict list \<Rightarrow> error + 'f jdict" where
  "max_by_created (best, k) [] = Inr best"
| "max_by_created (best, k) (m # rest) =
     (case created_key m of
        Inl e \<Rightarrow> Inl e
      | Inr k' \<Rightarrow> max_by_created (if k' > k then (m, k') else (best, k)) rest)"

definition last_maintenance_of :: "'f jdict list \<Rightarrow> error + 'f jdict" where
  "last_maintenance_of ms =
     (case ms of
        [] \<Rightarrow> Inl ValueError
      | m # rest \<Rightarrow>
          (case created_key m of Inl e \<Rightarrow> Inl e | Inr k \<Rightarrow> max_by_created (m, k) rest))"

text \<open>
  The body of the loop over the vehicles: the alerts of one vehicle (none or one).
  Every \<open>datetime.now()\<close> of one call is the same clock reading \<open>now\<close>.
\<close>

definition vehicle_alerts ::
  "parser \<Rightarrow> datetime \<Rightarrow> 'f jdict list \<Rightarrow> 'f jdict \<Rightarrow> error + 'f jdict list"
where
  "vehicle_alerts parse now maintenance_records vehicle =
     (case dict_item vehicle ''plate_number'' of
        Inl e \<Rightarrow> Inl e
      | Inr plate_number \<Rightarrow>
          (case records_of_plate plate_number maintenance_records of
             Inl e \<Rightarrow> Inl e
           | Inr [] \<Rightarrow>
               Inr [[(''plate_number'', plate_number),
                     (''alert'', JStr ''No maintenance records found''),
                     (''priority'', JStr ''high'')]]
           | Inr vehicle_maintenance \<Rightarrow>
               (case last_maintenance_of vehicle_maintenance of
                  Inl e \<Rightarrow> Inl e
                | Inr last_maintenance \<Rightarrow>
                    (case fromisoformat parse
                            (get_default last_maintenance ''created_at''
                               (JStr (isoformat now))) of
                       Inl e \<Rightarrow> Inl e
                     | Inr last_date \<Rightarrow>
                         (let days_since = timedelta_days now last_date in
                          if days_since > 90
                          then Inr [[(''plate_number'', plate_number),
                                     (''alert'', JStr (''Last maintenance '' @
                                        str_int days_since @ '' days ago'')),
                                     (''priority'',
                                        JStr (if days_since > 180 then ''high''
                                              else ''medium''))]]
                          else Inr [])))))"

fun alerts_of ::
  "parser \<Rightarrow> datetime \<Rightarrow> 'f jdict list \<Rightarrow> 'f jdict list \<Rightarrow> error + 'f jdict list"
where
  "alerts_of parse now maintenance_records [] = Inr []"
| "alerts_of parse now maintenance_records (vehicle # rest) =
     (case vehicle_alerts parse now maintenance_records vehicle of
        Inl e \<Rightarrow> Inl e
      | Inr a \<Rightarrow>
          (case alerts_of parse now maintenance_records rest of
             Inl e \<Rightarrow> Inl e
           | Inr as \<Rightarrow> Inr (a @ as)))"

definition get_maintenance_alerts ::
  "parser \<Rightarrow> datetime \<Rightarrow> 'f store \<Rightarrow> error + 'f jdict list"
where
  "get_maintenance_alerts parse now s =
     alerts_of parse now (load_data_list (maintenance_file s))
       (load_data_list (vehicles_file s))"

text \<open>
  \<open>show_maintenance_alerts\<close> of the maintenance page writes one warning per alert from
  \<open>alert['plate_number']\<close>, \<open>alert['alert_type']\<close> and \<open>alert['priority']\<close>, read in
  this order. The model returns the three values of every warning.
\<close>

fun alert_warnings :: "'f jdict list \<Rightarrow> error + ('f jval \<times> 'f jval \<times> 'f jval) list" where
  "alert_warnings [] = Inr []"
| "alert_warnings (alert # rest) =
     (case dict_item alert ''plate_number'' of
        Inl e \<Rightarrow> Inl e
      | Inr p \<Rightarrow>
          (case dict_item alert ''alert_type'' of
             Inl e \<Rightarrow> Inl e
           | Inr t \<Rightarrow>
               (case dict_item alert ''priority'' of
                  Inl e \<Rightarrow> Inl e
                | Inr q \<Rightarrow>
                    (case alert_warnings rest of
                       Inl e \<Rightarrow> Inl e
                     | Inr ws \<Rightarrow> Inr ((p, t, q) # ws)))))"

definition show_maintenance_alerts ::
  "parser \<Rightarrow> datetime \<Rightarrow> 'f store \<Rightarrow> error + ('f jval \<times> 'f jval \<times> 'f jval) list"
where
  "show_maintenance_alerts parse now s =
     (case get_maintenance_alerts parse now s of
        Inl e \<Rightarrow> Inl e
      | Inr alerts \<Rightarrow> alert_warnings alerts)"


section \<open>Loads\<close>

definition add_load :: "datetime \<Rightarrow> 'f store \<Rightarrow> 'f jdict \<Rightarrow> (bool \<times> string) \<times> 'f store" where
  "add_load now s load_data =
     (let loads = load_data_list (loads_file s);
          load_number = ''LD'' @ zfill 6 (length loads + 1);
          ld1 = dict_set load_data ''load_number'' (JStr load_number);
          ld2 = dict_set ld1 ''created_at'' (JStr (isoformat now));
          ld3 = dict_set ld2 ''id'' (JInt (int (length loads) + 1))
      in ((True, ''Load '' @ load_number @ '' added successfully''),
          s\<lparr>loads_file := Some (loads @ [ld3])\<rparr>))"

definition update_load_status :: "datetime \<Rightarrow> 'f store \<Rightarrow> string \<Rightarrow> string \<Rightarrow> 'f outcome" where
  "update_load_status now s load_number new_status =
     (let loads = load_data_list (loads_file s) in
      case update_where ''load_number'' load_number
             (\<lambda>load. dict_set (dict_set load ''status'' (JStr new_status))
                        ''updated_at'' (JStr (isoformat now)))
             loads of
        Inl e \<Rightarrow> Inl e
      | Inr (Some loads') \<Rightarrow>
          Inr ((True, ''Load status updated successfully''), s\<lparr>loads_file := Some loads'\<rparr>)
      | Inr None \<Rightarrow> Inr ((False, ''Load not found''), s))"

text \<open>
  The form \<open>show_add_load_form\<close>. The weights, the rate and the advance are floats
  (\<open>number_input\<close> with float bounds), of the abstract type \<open>'f\<close>; the form computes the
  derived fields with the float operations and submits them. \<open>split_head\<close> is
  \<open>s.split(" - ")[0]\<close>: the text before the first separator. Of the required fields
  that the form tests with \<open>all([...])\<close>, the loading date is a date object, which is
  always true; the others are strings (true when not empty) and floats (true when not 0).
\<close>

fun split_head :: "string \<Rightarrow> string" where
  "split_head [] = []"
| "split_head (c # cs) = (if take 3 (c # cs) = '' - '' then [] else c # split_head cs)"

record clock =
  c_hour :: nat
  c_minute :: nat
  c_second :: nat
  c_microsecond :: nat

record 'f load_form =
  lf_selected_vehicle :: string
  lf_loading_date :: date
  lf_source :: string
  lf_party_name :: string
  lf_contractor :: string
  lf_destination :: string
  lf_gross_weight :: 'f
  lf_tare_weight :: 'f
  lf_rate_per_unit :: 'f
  lf_advance_payment :: 'f
  lf_product_type :: string
  lf_loading_time :: clock
  lf_delivery_date :: date
  lf_delivery_time :: clock
  lf_status :: string
  lf_notes :: string

definition net_weight_of :: "('f::{zero,minus,times,linorder}) load_form \<Rightarrow> 'f" where
  "net_weight_of f =
     (if lf_gross_weight f > lf_tare_weight f then lf_gross_weight f - lf_tare_weight f else 0)"

definition amount_of :: "('f::{zero,minus,times,linorder}) load_form \<Rightarrow> 'f" where
  "amount_of f = net_weight_of f * lf_rate_per_unit f"

definition pending_amount_of :: "('f::{zero,minus,times,linorder}) load_form \<Rightarrow> 'f" where
  "pending_amount_of f = amount_of f - lf_advance_payment f"

definition clock_isoformat :: "clock \<Rightarrow> string" where
  "clock_isoformat c = time_isoformat (c_hour c) (c_minute c) (c_second c) (c_microsecond c)"

definition load_form_data ::
  "datetime \<Rightarrow> string \<Rightarrow> ('f::{zero,minus,times,linorder}) load_form \<Rightarrow> 'f jdict"
where
  "load_form_data now load_number f =
     [(''load_number'', JStr load_number),
      (''plate_number'',
         JStr (if lf_selected_vehicle f \<noteq> [] then split_head (lf_selected_vehicle f) else [])),
      (''loading_date'', JStr (date_isoformat (lf_loading_date f))),
      (''source'', JStr (lf_source f)),
      (''destination'', JStr (lf_destination f)),
      (''gross_weight'', JFloat (lf_gross_weight f)),
      (''tare_weight'', JFloat (lf_tare_weight f)),
      (''net_weight'', JFloat (net_weight_of f)),
      (''rate_per_unit'', JFloat (lf_rate_per_unit f)),
      (''amount'', JFloat (amount_of f)),
      (''advance_payment'', JFloat (lf_advance_payment f)),
      (''pending_amount'', JFloat (pending_amount_of f)),
      (''party_name'', JStr (lf_party_name f)),
      (''contractor'', JStr (lf_contractor f)),
      (''product_type'', JStr (lf_product_type f)),
      (''loading_time'', JStr (clock_isoformat (lf_loading_time f))),
      (''delivery_date'', JStr (date_isoformat (lf_delivery_date f))),
      (''delivery_time'', JStr (clock_isoformat (lf_delivery_time f))),
      (''status'', JStr (lf_status f)),
      (''notes'', JStr (lf_notes f)),
      (''created_at'', JStr (isoformat now))]"

definition show_add_load_form ::
  "datetime \<Rightarrow> ('f::{zero,minus,times,linorder}) store \<Rightarrow> 'f load_form \<Rightarrow>
     (bool \<times> string) \<times> 'f store"
where
  "show_add_load_form now s f =
     (if load_data_list (vehicles_file s) = []
      then ((False, ''No vehicles found. Please add vehicles first.''), s)
      else
        let existing_loads = load_data_list (loads_file s);
            load_number = ''LD'' @ zfill 6 (length existing_loads + 1)
        in
        if \<not> (lf_selected_vehicle f \<noteq> [] \<and> lf_source f \<noteq> [] \<and> lf_party_name f \<noteq> [] \<and>
              lf_gross_weight f \<noteq> 0 \<and> lf_tare_weight f \<noteq> 0 \<and> lf_rate_per_unit f \<noteq> 0)
        then ((False, ''Please fill in all required fields (marked with *)!''), s)
        else if net_weight_of f \<le> 0
        then ((False, ''Net weight must be positive. Check gross and tare weights.''), s)
        else add_load now s (load_form_data now load_number f))"

section \<open>Document compliance\<close>

text \<open>
  \<open>show_document_compliance\<close> of the dashboard: the entry of \<open>compliance_data\<close> for
  each vehicle. A document is valid when the date of its \<open>expire_date\<close> is greater than
  \<open>current_date\<close>, the date of \<open>now\<close>.
\<close>

fun valid_docs :: "parser \<Rightarrow> datetime \<Rightarrow> 'f jdict list \<Rightarrow> error + 'f jdict list" where
  "valid_docs parse now [] = Inr []"
| "valid_docs parse now (doc # rest) =
     (case dict_item doc ''expire_date'' of
        Inl e \<Rightarrow> Inl e
      | Inr v \<Rightarrow>
          (case fromisoformat parse v of
             Inl e \<Rightarrow> Inl e
           | Inr expire_date \<Rightarrow>
               (case valid_docs parse now rest of
                  Inl e \<Rightarrow> Inl e
                | Inr found \<Rightarrow> Inr (if date_less now expire_date then doc # found else found))))"

definition compliance_entry ::
  "parser \<Rightarrow> datetime \<Rightarrow> 'f jdict list \<Rightarrow> 'f jdict list \<Rightarrow> 'f jdict \<Rightarrow> error + 'f jdict"
where
  "compliance_entry parse now permits tax_records vehicle =
     (case dict_item vehicle ''plate_number'' of
        Inl e \<Rightarrow> Inl e
      | Inr plate \<Rightarrow>
          (case records_of_plate plate permits of
             Inl e \<Rightarrow> Inl e
           | Inr vehicle_permits \<Rightarrow>
               (case valid_docs parse now vehicle_permits of
                  Inl e \<Rightarrow> Inl e
                | Inr valid_permits \<Rightarrow>
                    (case records_of_plate plate tax_records of
                       Inl e \<Rightarrow> Inl e
                     | Inr vehicle_taxes \<Rightarrow>
                         (case valid_docs parse now vehicle_taxes of
                            Inl e \<Rightarrow> Inl e
                          | Inr valid_taxes \<Rightarrow>
                              (let has_permit = length valid_permits > 0;
                                   has_tax = length valid_taxes > 0;
                                   (status, color) =
                                     (if has_permit \<and> has_tax then (''Compliant'', ''#00cc96'')
                                      else if has_permit \<or> has_tax then (''Partial'', ''#ffa15a'')
                                      else (''Non-Compliant'', ''#ef553b''))
                               in Inr [(''vehicle'', plate),
                                       (''status'', JStr status),
                                       (''color'', JStr color),
                                       (''permits'', JInt (int (length valid_permits))),
                                       (''taxes'', JInt (int (length valid_taxes)))]))))))"

fun show_document_compliance ::
  "parser \<Rightarrow> datetime \<Rightarrow> 'f jdict list \<Rightarrow> 'f jdict list \<Rightarrow> 'f jdict list \<Rightarrow>
     error + 'f jdict list"
where
  "show_document_compliance parse now [] permits tax_records = Inr []"
| "show_document_compliance parse now (vehicle # rest) permits tax_records =
     (case compliance_entry parse now permits tax_records vehicle of
        Inl e \<Rightarrow> Inl e
      | Inr entry \<Rightarrow>
          (case show_document_compliance parse now rest permits tax_records of
             Inl e \<Rightarrow> Inl e
           | Inr entries \<Rightarrow> Inr (entry # entries)))"

section \<open>Low stock\<close>

text \<open>
  \<open>show_low_stock_alerts\<close> of the inventory page. The reorder level is 5, 8 or 10, so
  \<open>reorder_level * 0.5\<close> is exact in binary floating point, and Python compares an
  integer with a float by value: the comparison is the one of the rationals.
  \<open>title\<close> is \<open>str.title\<close> on ASCII text.
\<close>

definition get_reorder_level :: "string \<Rightarrow> int" where
  "get_reorder_level item_type =
     get_default [(''oil'', 5), (''air_filter'', 10), (''tires'', 8)] item_type 5"

definition lower_char :: "char \<Rightarrow> char" where
  "lower_char c =
     (case map_of (zip ''ABCDEFGHIJKLMNOPQRSTUVWXYZ'' ''abcdefghijklmnopqrstuvwxyz'') c of
        None \<Rightarrow> c | Some l \<Rightarrow> l)"

definition is_cased :: "char \<Rightarrow> bool" where
  "is_cased c = (c \<in> set ''abcdefghijklmnopqrstuvwxyzABCDEFGHIJKLMNOPQRSTUVWXYZ'')"

fun title_from :: "bool \<Rightarrow> string \<Rightarrow> string" where
  "title_from inside [] = []"
| "title_from inside (c # cs) =
     (if is_cased c then (if inside then lower_char c else upper_char c) # title_from True cs
      else c # title_from False cs)"

definition item_name_of :: "string \<Rightarrow> string" where
  "item_name_of item_key =
     title_from False (map (\<lambda>c. if c = CHR ''_'' then CHR '' '' else c) item_key)"

record low_stock_item =
  item :: string
  current_stock :: int
  reorder_level :: int
  priority :: string
  recommended_order :: int

definition priority_of :: "int \<Rightarrow> int \<Rightarrow> string" where
  "priority_of quantity level =
     (if quantity = 0 then ''Critical''
      else if (of_int quantity :: rat) \<le> of_int level * (1 / 2) then ''High''
      else ''Medium'')"

fun low_stock_items :: "inventory \<Rightarrow> low_stock_item list" where
  "low_stock_items [] = []"
| "low_stock_items ((item_key, quantity) # rest) =
     (let level = get_reorder_level item_key in
      if quantity \<le> level
      then \<lparr>item = item_name_of item_key, current_stock = quantity, reorder_level = level,
            priority = priority_of quantity level,
            recommended_order = max (level * 2 - quantity) level\<rparr> # low_stock_items rest
      else low_stock_items rest)"

definition show_low_stock_alerts :: "'f store \<Rightarrow> low_stock_item list" where
  "show_low_stock_alerts s = low_stock_items (load_data_inventory (inventory_file s))"


section \<open>Initial state and well-formed data\<close>

text \<open>The files that \<open>initialize_data_files\<close> writes in an empty directory.\<close>

definition initialize_data_files :: "'f store" where
  "initialize_data_files =
     \<lparr>vehicles_file = Some [], maintenance_file = Some [],
      inventory_file = Some [(''oil'', 0), (''air_filter'', 0), (''tires'', 0)],
      permits_file = Some [], token_tax_file = Some [], loads_file = Some []\<rparr>"

definition nonneg_inventory :: "inventory \<Rightarrow> bool" where
  "nonneg_inventory stock = (\<forall>q \<in> snd ` set stock. 0 \<le> q)"

text \<open>
  The flag of a quantity at a reorder level: Critical at 0, High for any other quantity
  up to half the level, Medium above half the level and up to the level, and none above
  the level.
\<close>

definition low_stock_flag :: "int \<Rightarrow> int \<Rightarrow> string option" where
  "low_stock_flag quantity level =
     (if quantity = 0 then Some ''Critical''
      else if (of_int quantity :: rat) \<le> (1 / 2) * of_int level then Some ''High''
      else if (1 / 2) * (of_int level :: rat) < of_int quantity \<and> quantity \<le> level
        then Some ''Medium''
      else None)"

definition flagged :: "inventory \<Rightarrow> (string \<times> int \<times> string) list" where
  "flagged stock =
     concat (map (\<lambda>(item_key, quantity).
                    case low_stock_flag quantity (get_reorder_level item_key) of
                      None \<Rightarrow> []
                    | Some p \<Rightarrow> [(item_name_of item_key, quantity, p)]) stock)"

text \<open>
  A maintenance record asks for a part that the stock cannot supply: one unit of oil or
  one air filter when the flag is set, and \<open>tires_changed\<close> tires when it is positive.
\<close>

definition oil_short :: "inventory \<Rightarrow> ('f::zero) jdict \<Rightarrow> bool" where
  "oil_short stock md =
     (truthy (get_default md ''oil_changed'' (JBool False)) \<and> get_default stock ''oil'' 0 < 1)"

definition air_filter_short :: "inventory \<Rightarrow> ('f::zero) jdict \<Rightarrow> bool" where
  "air_filter_short stock md =
     (truthy (get_default md ''air_filter_changed'' (JBool False)) \<and>
      get_default stock ''air_filter'' 0 < 1)"

definition tires_short :: "inventory \<Rightarrow> 'f jdict \<Rightarrow> bool" where
  "tires_short stock md =
     (case as_int (get_default md ''tires_changed'' (JInt 0)) of
        Inl e \<Rightarrow> False
      | Inr n \<Rightarrow> 0 < n \<and> get_default stock ''tires'' 0 < n)"

text \<open>
  The plate number of a stored vehicle, and the invariant of the vehicle collection:
  every record has a plate number, a string that \<open>str.upper\<close> leaves as it is.
\<close>

definition plate_of :: "'f jdict \<Rightarrow> string" where
  "plate_of v = (case map_of v ''plate_number'' of Some (JStr p) \<Rightarrow> p | _ \<Rightarrow> [])"

definition plates_uppercased :: "'f jdict list \<Rightarrow> bool" where
  "plates_uppercased vehicles =
     list_all (\<lambda>v. case map_of v ''plate_number'' of
                      Some (JStr p) \<Rightarrow> upper p = p
                    | _ \<Rightarrow> False) vehicles"

text \<open>Every record of a collection has the field that identifies it.\<close>

definition has_field :: "string \<Rightarrow> 'f jdict list \<Rightarrow> bool" where
  "has_field key rs = list_all (\<lambda>r. map_of r key \<noteq> None) rs"

text \<open>
  The expiry date of a permit or tax record, as \<open>parse\<close> reads it; a collection is
  dated when every record has one. A document expires within \<open>days_ahead\<close> days when
  its date is at most that many days after the date of \<open>now\<close>, and is unexpired when
  its date is after the date of \<open>now\<close>.
\<close>

definition expire_date_of :: "parser \<Rightarrow> 'f jdict \<Rightarrow> datetime option" where
  "expire_date_of parse doc =
     (case map_of doc ''expire_date'' of Some (JStr s) \<Rightarrow> parse s | _ \<Rightarrow> None)"

definition dated :: "parser \<Rightarrow> 'f jdict list \<Rightarrow> bool" where
  "dated parse docs = list_all (\<lambda>doc. expire_date_of parse doc \<noteq> None) docs"

definition expires_within :: "parser \<Rightarrow> datetime \<Rightarrow> int \<Rightarrow> 'f jdict \<Rightarrow> bool" where
  "expires_within parse now days_ahead doc =
     (case expire_date_of parse doc of
        None \<Rightarrow> False
      | Some expire_date \<Rightarrow> toordinal expire_date - toordinal now \<le> days_ahead)"

definition unexpired :: "parser \<Rightarrow> datetime \<Rightarrow> 'f jdict \<Rightarrow> bool" where
  "unexpired parse now doc =
     (case expire_date_of parse doc of
        None \<Rightarrow> False
      | Some expire_date \<Rightarrow> date_less now expire_date)"

definition has_valid :: "parser \<Rightarrow> datetime \<Rightarrow> 'f jval \<Rightarrow> 'f jdict list \<Rightarrow> bool" where
  "has_valid parse now plate docs =
     list_ex (\<lambda>doc. map_of doc ''plate_number'' = Some plate \<and> unexpired parse now doc) docs"

text \<open>
  The compliance status of the specification: Compliant with an unexpired permit and an
  unexpired tax record, Partial with exactly one of the two, Non-Compliant with neither.
\<close>

definition compliance_status ::
  "parser \<Rightarrow> datetime \<Rightarrow> 'f jdict list \<Rightarrow> 'f jdict list \<Rightarrow> 'f jval \<Rightarrow> string"
where
  "compliance_status parse now permits tax_records plate =
     (if has_valid parse now plate permits \<and> has_valid parse now plate tax_records
      then ''Compliant''
      else if has_valid parse now plate permits \<noteq> has_valid parse now plate tax_records
      then ''Partial''
      else ''Non-Compliant'')"

text \<open>
  Reading decimal numerals, and \<open>fromisoformat\<close> on the strings that \<open>date.isoformat\<close>
  and \<open>datetime.isoformat\<close> write: \<open>YYYY-MM-DD\<close>, optionally followed by
  \<open>THH:MM:SS\<close> and \<open>.ffffff\<close>. It is the parser of the examples below.
\<close>

definition digit_value :: "char \<Rightarrow> nat option" where
  "digit_value c = map_of (zip ''0123456789'' [0, 1, 2, 3, 4, 5, 6, 7, 8, 9]) c"

fun read_digits :: "nat \<Rightarrow> string \<Rightarrow> nat option" where
  "read_digits acc [] = Some acc"
| "read_digits acc (c # cs) =
     (case digit_value c of None \<Rightarrow> None | Some d \<Rightarrow> read_digits (10 * acc + d) cs)"

definition read_nat :: "string \<Rightarrow> nat option" where
  "read_nat s = (if s = [] then None else read_digits 0 s)"

definition parse_date_fields :: "string \<Rightarrow> (nat \<times> nat \<times> nat) option" where
  "parse_date_fields s =
     (if length s = 10 \<and> s ! 4 = CHR ''-'' \<and> s ! 7 = CHR ''-''
      then (case (read_nat (take 4 s), read_nat (take 2 (drop 5 s)), read_nat (drop 8 s)) of
              (Some y, Some m, Some d) \<Rightarrow>
                if 1 \<le> y \<and> 1 \<le> m \<and> m \<le> 12 \<and> 1 \<le> d \<and> d \<le> days_in_month y ! (m - 1)
                then Some (y, m, d) else None
            | _ \<Rightarrow> None)
      else None)"

definition parse_time_fields :: "string \<Rightarrow> (nat \<times> nat \<times> nat \<times> nat) option" where
  "parse_time_fields s =
     (if length s \<ge> 8 \<and> s ! 2 = CHR '':'' \<and> s ! 5 = CHR '':'' \<and>
         (length s = 8 \<or> (length s = 15 \<and> s ! 8 = CHR ''.''))
      then (case (read_nat (take 2 s), read_nat (take 2 (drop 3 s)),
                  read_nat (take 2 (drop 6 s)),
                  if length s = 8 then Some 0 else read_nat (drop 9 s)) of
              (Some h, Some m, Some sec, Some us) \<Rightarrow>
                if h < 24 \<and> m < 60 \<and> sec < 60 then Some (h, m, sec, us) else None
            | _ \<Rightarrow> None)
      else None)"

definition parse_isoformat :: parser where
  "parse_isoformat s =
     (case parse_date_fields (take 10 s) of
        None \<Rightarrow> None
      | Some (y, m, d) \<Rightarrow>
          if length s = 10
          then Some \<lparr>year = y, month = m, day = d, hour = 0, minute = 0, second = 0,
                     microsecond = 0\<rparr>
          else if s ! 10 = CHR ''T''
          then (case parse_time_fields (drop 11 s) of
                  None \<Rightarrow> None
                | Some (h, mi, sec, us) \<Rightarrow>
                    Some \<lparr>year = y, month = m, day = d, hour = h, minute = mi, second = sec,
                          microsecond = us\<rparr>)
          else None)"

text \<open>Example data: a vehicle, two permits and a tax record on 17 May 2024.\<close>

definition sample_now :: datetime where
  "sample_now = \<lparr>year = 2024, month = 5, day = 17, hour = 9, minute = 30, second = 0,
                  microsecond = 0\<rparr>"

definition sample_vehicle :: "rat jdict" where
  "sample_vehicle = [(''plate_number'', JStr ''ABC-123''), (''driver_name'', JStr ''Imran'')]"

definition sample_permit :: "rat jdict" where
  "sample_permit = [(''plate_number'', JStr ''ABC-123''), (''permit_number'', JStr ''P-1''),
                    (''expire_date'', JStr ''2024-05-22'')]"

definition sample_expired_permit :: "rat jdict" where
  "sample_expired_permit =
     [(''plate_number'', JStr ''XYZ-789''), (''permit_number'', JStr ''P-2''),
      (''expire_date'', JStr ''2024-05-02'')]"

definition sample_tax :: "rat jdict" where
  "sample_tax = [(''plate_number'', JStr ''ABC-123''), (''expire_date'', JStr ''2024-06-26'')]"

definition sample_store :: "rat store" where
  "sample_store =
     initialize_data_files
       \<lparr>vehicles_file := Some [sample_vehicle],
        permits_file := Some [sample_permit, sample_expired_permit],
        token_tax_file := Some [sample_tax]\<rparr>"

text \<open>
  The creation stamp of a maintenance record, and the collections in which every record
  has one that parses. The alerts of the specification for a vehicle: one of high
  priority without maintenance records; otherwise, with \<open>d\<close> the whole days since
  a record whose stamp is greatest as a string, none up to 90 days, one of medium
  priority from 91 to 180 days, and one of high priority beyond.
\<close>

definition created_of :: "'f jdict \<Rightarrow> string" where
  "created_of m = (case map_of m ''created_at'' of Some (JStr s) \<Rightarrow> s | _ \<Rightarrow> [])"

definition stamped :: "parser \<Rightarrow> 'f jdict list \<Rightarrow> bool" where
  "stamped parse ms =
     list_all (\<lambda>m. case map_of m ''created_at'' of
                      Some (JStr s) \<Rightarrow> parse s \<noteq> None
                    | _ \<Rightarrow> False) ms"

definition no_records_alert :: "'f jval \<Rightarrow> 'f jdict" where
  "no_records_alert plate =
     [(''plate_number'', plate), (''alert'', JStr ''No maintenance records found''),
      (''priority'', JStr ''high'')]"

definition overdue_alert :: "'f jval \<Rightarrow> int \<Rightarrow> string \<Rightarrow> 'f jdict" where
  "overdue_alert plate d level =
     [(''plate_number'', plate),
      (''alert'', JStr (''Last maintenance '' @ str_int d @ '' days ago'')),
      (''priority'', JStr level)]"

definition due_alerts :: "'f jval \<Rightarrow> int \<Rightarrow> 'f jdict list" where
  "due_alerts plate d =
     (if d \<le> 90 then []
      else if 91 \<le> d \<and> d \<le> 180 then [overdue_alert plate d ''medium'']
      else [overdue_alert plate d ''high''])"

definition alerts_as_specified ::
  "parser \<Rightarrow> datetime \<Rightarrow> 'f jdict list \<Rightarrow> 'f jdict \<Rightarrow> 'f jdict list \<Rightarrow> bool"
where
  "alerts_as_specified parse now maintenance_records vehicle alerts =
     (\<exists>plate. map_of vehicle ''plate_number'' = Some plate \<and>
        (let rs = filter (\<lambda>m. map_of m ''plate_number'' = Some plate) maintenance_records in
         if rs = [] then alerts = [no_records_alert plate]
         else \<exists>m \<in> set rs. \<exists>last_date.
                (\<forall>m' \<in> set rs. created_of m' \<le> created_of m) \<and>
                parse (created_of m) = Some last_date \<and>
                alerts = due_alerts plate (timedelta_days now last_date)))"

text \<open>The fields of an alert: plate number, text and priority, and no other.\<close>

definition alert_shape :: "'f jdict \<Rightarrow> bool" where
  "alert_shape a =
     (map fst a = [''plate_number'', ''alert'', ''priority''] \<and>
      (map_of a ''priority'' = Some (JStr ''high'') \<or>
       map_of a ''priority'' = Some (JStr ''medium'')) \<and>
      map_of a ''alert_type'' = None)"

text \<open>Example data: two vehicles, one of them serviced twice.\<close>

definition sample_vehicle2 :: "rat jdict" where
  "sample_vehicle2 = [(''plate_number'', JStr ''XYZ-789''), (''driver_name'', JStr ''Bilal'')]"

definition sample_service :: "rat jdict" where
  "sample_service = [(''plate_number'', JStr ''ABC-123''), (''oil_changed'', JBool True),
                     (''created_at'', JStr ''2024-02-10T08:00:00''), (''id'', JInt 2)]"

definition sample_old_service :: "rat jdict" where
  "sample_old_service = [(''plate_number'', JStr ''ABC-123''), (''oil_changed'', JBool False),
                         (''created_at'', JStr ''2023-10-02T16:45:10.250000''), (''id'', JInt 1)]"

definition sample_fleet :: "rat store" where
  "sample_fleet =
     initialize_data_files
       \<lparr>vehicles_file := Some [sample_vehicle, sample_vehicle2],
        maintenance_file := Some [sample_old_service, sample_service]\<rparr>"

text \<open>
  Example data: the load of the specification (10000 kg gross, 4000 kg tare, rate 2.5,
  advance 5000), and a store that already holds 999999 loads.
\<close>

definition sample_load_form :: "rat load_form" where
  "sample_load_form =
     \<lparr>lf_selected_vehicle = ''ABC-123 - Imran'',
      lf_loading_date = \<lparr>year = 2024, month = 5, day = 17\<rparr>,
      lf_source = ''Refinery A'', lf_party_name = ''Depot B'', lf_contractor = [],
      lf_destination = ''Depot B'',
      lf_gross_weight = 10000, lf_tare_weight = 4000, lf_rate_per_unit = 5 / 2,
      lf_advance_payment = 5000, lf_product_type = ''LPG'',
      lf_loading_time = \<lparr>c_hour = 9, c_minute = 30, c_second = 0, c_microsecond = 0\<rparr>,
      lf_delivery_date = \<lparr>year = 2024, month = 5, day = 18\<rparr>,
      lf_delivery_time = \<lparr>c_hour = 9, c_minute = 30, c_second = 0, c_microsecond = 0\<rparr>,
      lf_status = ''Loading'', lf_notes = []\<rparr>"

definition crowded_store :: "rat store" where
  "crowded_store = initialize_data_files \<lparr>loads_file := Some (replicate 999999 [])\<rparr>"

section \<open>Dictionaries: basic facts\<close>

lemma set_update_values:
  "(k', q) \<in> set (AList.update k v al) \<Longrightarrow> q = v \<or> (k', q) \<in> set al"
  by (induction al) (auto split: if_splits)

lemma get_default_dict_set:
  "get_default (dict_set d k v) k' dflt = (if k' = k then v else get_default d k' dflt)"
  by (simp add: get_default_def dict_set_def update_conv')

lemma get_default_absent: "map_of d k = None \<Longrightarrow> get_default d k dflt = dflt"
  by (simp add: get_default_def)

section \<open>Inventory: subtraction never goes below zero\<close>

lemma update_inventory_subtract_eq:
  "update_inventory s item_type quantity ''subtract'' =
     ((True, ''Inventory updated: '' @ item_type @ '' = '' @
               str_int (max 0 (get_default (load_data_inventory (inventory_file s)) item_type 0
                                 - quantity))),
      s\<lparr>inventory_file := Some (dict_set
          (if map_of (load_data_inventory (inventory_file s)) item_type = None
           then dict_set (load_data_inventory (inventory_file s)) item_type 0
           else load_data_inventory (inventory_file s)) item_type
          (max 0 (get_default (load_data_inventory (inventory_file s)) item_type 0
                    - quantity)))\<rparr>)"
  by (simp add: update_inventory_def Let_def get_default_dict_set get_default_absent)

lemma nonneg_dict_set:
  "nonneg_inventory d \<Longrightarrow> 0 \<le> v \<Longrightarrow> nonneg_inventory (dict_set d k v)"
  unfolding nonneg_inventory_def dict_set_def
  by (auto dest: set_update_values)

lemma update_inventory_subtract_nonneg:
  assumes "nonneg_inventory (load_data_inventory (inventory_file s))"
  shows "nonneg_inventory
           (load_data_inventory
              (inventory_file (snd (update_inventory s item_type quantity ''subtract''))))"
proof -
  let ?stock = "load_data_inventory (inventory_file s)"
  have "nonneg_inventory
          (if map_of ?stock item_type = None then dict_set ?stock item_type 0 else ?stock)"
    using assms by (simp add: nonneg_dict_set)
  then show ?thesis
    by (simp add: update_inventory_subtract_eq load_data_inventory_def nonneg_dict_set)
qed

lemma subtract_all_ok:
  "nonneg_inventory (load_data_inventory (inventory_file s)) \<Longrightarrow>
   length (fst (subtract_all s calls)) = length calls \<and>
   (\<forall>ok \<in> set (fst (subtract_all s calls)). ok) \<and>
   nonneg_inventory (load_data_inventory (inventory_file (snd (subtract_all s calls))))"
proof (induction calls arbitrary: s)
  case Nil
  then show ?case by simp
next
  case (Cons c calls)
  obtain item_type quantity where c: "c = (item_type, quantity)" by (cases c)
  let ?s1 = "snd (update_inventory s item_type quantity ''subtract'')"
  have nn: "nonneg_inventory (load_data_inventory (inventory_file ?s1))"
    using update_inventory_subtract_nonneg [OF Cons.prems] .
  have step: "update_inventory s item_type quantity ''subtract'' =
                ((True, snd (fst (update_inventory s item_type quantity ''subtract''))), ?s1)"
    by (simp add: update_inventory_subtract_eq)
  have unf: "subtract_all s (c # calls) =
               (True # fst (subtract_all ?s1 calls), snd (subtract_all ?s1 calls))"
    unfolding c by (subst subtract_all.simps, subst step) (simp add: case_prod_beta)
  from Cons.IH [OF nn] show ?case unfolding unf by auto
qed

text \<open>
  Claim C3. From an inventory with non-negative quantities, every sequence of
  \<open>update_inventory(item, qty, 'subtract')\<close> calls succeeds at every call and leaves
  every quantity non-negative, whatever the quantities subtracted; and a single call,
  from any store, returns success and leaves the item at \<open>max(0, previous - qty)\<close>,
  where the previous quantity of an item that the inventory does not have is 0.
\<close>

theorem update_inventory_subtract_clamps:
  assumes "nonneg_inventory (load_data_inventory (inventory_file s))"
  shows "length (fst (subtract_all s calls)) = length calls \<and>
         (\<forall>ok \<in> set (fst (subtract_all s calls)). ok) \<and>
         nonneg_inventory (load_data_inventory (inventory_file (snd (subtract_all s calls)))) \<and>
         (\<forall>s0 item_type quantity.
            fst (fst (update_inventory s0 item_type quantity ''subtract'')) \<and>
            get_default
              (load_data_inventory
                 (inventory_file (snd (update_inventory s0 item_type quantity ''subtract''))))
              item_type 0
            = max 0 (get_default (load_data_inventory (inventory_file s0)) item_type 0
                       - quantity))"
proof -
  have "\<forall>s0 item_type quantity.
          fst (fst (update_inventory (s0 :: 'b store) item_type quantity ''subtract'')) \<and>
          get_default
            (load_data_inventory
               (inventory_file (snd (update_inventory s0 item_type quantity ''subtract''))))
            item_type 0
          = max 0 (get_default (load_data_inventory (inventory_file s0)) item_type 0
                     - quantity)"
    by (simp add: update_inventory_subtract_eq load_data_inventory_def get_default_dict_set)
  with subtract_all_ok [OF assms, of calls] show ?thesis by blast
qed

theorem update_inventory_subtract_clamps_witness:
  "nonneg_inventory
     (load_data_inventory
        (inventory_file ((initialize_data_files :: rat store)
           \<lparr>inventory_file := Some [(''oil'', 3), (''tires'', 1)]\<rparr>))) \<and>
   fst (subtract_all
          ((initialize_data_files :: rat store)
             \<lparr>inventory_file := Some [(''oil'', 3), (''tires'', 1)]\<rparr>)
          [(''oil'', 5), (''air_filter'', 2), (''tires'', 1)]) = [True, True, True] \<and>
   nonneg_inventory
     (load_data_inventory
        (inventory_file
           (snd (subtract_all
                   ((initialize_data_files :: rat store)
                      \<lparr>inventory_file := Some [(''oil'', 3), (''tires'', 1)]\<rparr>)
                   [(''oil'', 5), (''air_filter'', 2), (''tires'', 1)]))))"
proof -
  let ?s = "(initialize_data_files :: rat store)
              \<lparr>inventory_file := Some [(''oil'', 3), (''tires'', 1)]\<rparr>"
  let ?calls = "[(''oil'', 5), (''air_filter'', 2), (''tires'', 1 :: int)]"
  have h: "nonneg_inventory (load_data_inventory (inventory_file ?s))"
    by (simp add: nonneg_inventory_def load_data_inventory_def)
  have "length (fst (subtract_all ?s ?calls)) = length ?calls"
    using update_inventory_subtract_clamps [OF h, of ?calls] by (rule conjunct1)
  also have "length ?calls = 3" by simp
  finally have len: "length (fst (subtract_all ?s ?calls)) = 3" .
  have all: "\<forall>ok \<in> set (fst (subtract_all ?s ?calls)). ok"
    using update_inventory_subtract_clamps [OF h, of ?calls] by blast
  have "fst (subtract_all ?s ?calls) = [True, True, True]"
    using len all by (auto simp: length_Suc_conv numeral_3_eq_3)
  with h update_inventory_subtract_clamps [OF h, of ?calls] show ?thesis by blast
qed

section \<open>Low stock alerts\<close>

lemma get_reorder_level_cases:
  "get_reorder_level k = 5 \<or> get_reorder_level k = 10 \<or> get_reorder_level k = 8"
  by (simp add: get_reorder_level_def get_default_def)

lemma low_stock_one:
  "(if q \<le> get_reorder_level k
    then [(item_name_of k, q, priority_of q (get_reorder_level k))] else []) =
   (case low_stock_flag q (get_reorder_level k) of
      None \<Rightarrow> [] | Some p \<Rightarrow> [(item_name_of k, q, p)])"
  using get_reorder_level_cases [of k]
  by (auto simp: priority_of_def low_stock_flag_def)

lemma low_stock_items_flagged:
  "map (\<lambda>i. (item i, current_stock i, priority i)) (low_stock_items stock) = flagged stock"
proof (induction stock)
  case Nil
  then show ?case by (simp add: flagged_def)
next
  case (Cons e stock)
  obtain k q where e: "e = (k, q)" by (cases e)
  have "flagged (e # stock) =
          (case low_stock_flag q (get_reorder_level k) of
             None \<Rightarrow> [] | Some p \<Rightarrow> [(item_name_of k, q, p)]) @ flagged stock"
    by (simp add: flagged_def e)
  also have "\<dots> =
          (if q \<le> get_reorder_level k
           then [(item_name_of k, q, priority_of q (get_reorder_level k))] else [])
          @ flagged stock"
    using low_stock_one [of q k] by simp
  finally show ?case using Cons.IH by (simp add: e Let_def)
qed

lemma low_stock_flag_cases:
  "(low_stock_flag q (get_reorder_level k) = Some ''Critical'' \<longleftrightarrow> q = 0) \<and>
   (low_stock_flag q (get_reorder_level k) = Some ''High'' \<longleftrightarrow>
      q \<noteq> 0 \<and> (of_int q :: rat) \<le> (1 / 2) * of_int (get_reorder_level k)) \<and>
   (low_stock_flag q (get_reorder_level k) = Some ''Medium'' \<longleftrightarrow>
      (1 / 2) * (of_int (get_reorder_level k) :: rat) < of_int q \<and> q \<le> get_reorder_level k) \<and>
   (low_stock_flag q (get_reorder_level k) = None \<longleftrightarrow> get_reorder_level k < q)"
  using get_reorder_level_cases [of k]
  by (auto simp: low_stock_flag_def)

lemma item_names:
  "item_name_of ''oil'' = ''Oil''" "item_name_of ''air_filter'' = ''Air Filter''"
  "item_name_of ''tires'' = ''Tires''"
  by (simp_all add: item_name_of_def is_cased_def upper_char_def lower_char_def)

lemma reorder_levels:
  "get_reorder_level ''oil'' = 5" "get_reorder_level ''air_filter'' = 10"
  "get_reorder_level ''tires'' = 8"
  by (simp_all add: get_reorder_level_def get_default_def)

text \<open>
  Claim C7, as amended. With the reorder levels 5 for oil, 10 for air filters and 8 for
  tires (5 for any other item), the low stock alerts of every inventory are its flagged
  items, in the order of the inventory, and an item is flagged Critical if and only if
  its quantity is 0, High if and only if its quantity is not 0 and at most half the
  reorder level (for a quantity that is not negative: positive and at most half the
  level), Medium if and only if it is above half the level and at most the level, and
  not flagged if and only if it is above the level. For the inventory oil 0, air
  filter 12, tires 3 the alerts are oil Critical and tires High.
\<close>

theorem low_stock_alerts_flags:
  "map (\<lambda>i. (item i, current_stock i, priority i)) (show_low_stock_alerts s) =
     flagged (load_data_inventory (inventory_file s)) \<and>
   (\<forall>q k.
      (low_stock_flag q (get_reorder_level k) = Some ''Critical'' \<longleftrightarrow> q = 0) \<and>
      (low_stock_flag q (get_reorder_level k) = Some ''High'' \<longleftrightarrow>
         q \<noteq> 0 \<and> (of_int q :: rat) \<le> (1 / 2) * of_int (get_reorder_level k)) \<and>
      (low_stock_flag q (get_reorder_level k) = Some ''Medium'' \<longleftrightarrow>
         (1 / 2) * (of_int (get_reorder_level k) :: rat) < of_int q \<and>
         q \<le> get_reorder_level k) \<and>
      (low_stock_flag q (get_reorder_level k) = None \<longleftrightarrow> get_reorder_level k < q) \<and>
      (0 \<le> q \<longrightarrow>
         (low_stock_flag q (get_reorder_level k) = Some ''High'' \<longleftrightarrow>
            0 < q \<and> (of_int q :: rat) \<le> (1 / 2) * of_int (get_reorder_level k)))) \<and>
   map (\<lambda>i. (item i, priority i))
     (low_stock_items [(''oil'', 0), (''air_filter'', 12), (''tires'', 3)]) =
     [(''Oil'', ''Critical''), (''Tires'', ''High'')] \<and>
   get_reorder_level ''oil'' = 5 \<and> get_reorder_level ''air_filter'' = 10 \<and>
   get_reorder_level ''tires'' = 8"
proof -
  have scenario: "map (\<lambda>i. (item i, priority i))
          (low_stock_items [(''oil'', 0), (''air_filter'', 12), (''tires'', 3)]) =
        [(''Oil'', ''Critical''), (''Tires'', ''High'')]"
    by (simp add: Let_def reorder_levels item_names priority_of_def)
  have flags: "\<forall>q k.
      (low_stock_flag q (get_reorder_level k) = Some ''Critical'' \<longleftrightarrow> q = 0) \<and>
      (low_stock_flag q (get_reorder_level k) = Some ''High'' \<longleftrightarrow>
         q \<noteq> 0 \<and> (of_int q :: rat) \<le> (1 / 2) * of_int (get_reorder_level k)) \<and>
      (low_stock_flag q (get_reorder_level k) = Some ''Medium'' \<longleftrightarrow>
         (1 / 2) * (of_int (get_reorder_level k) :: rat) < of_int q \<and>
         q \<le> get_reorder_level k) \<and>
      (low_stock_flag q (get_reorder_level k) = None \<longleftrightarrow> get_reorder_level k < q) \<and>
      (0 \<le> q \<longrightarrow>
         (low_stock_flag q (get_reorder_level k) = Some ''High'' \<longleftrightarrow>
            0 < q \<and> (of_int q :: rat) \<le> (1 / 2) * of_int (get_reorder_level k)))"
  proof (intro allI)
    fix q k
    note c = low_stock_flag_cases [of q k]
    from c have "0 \<le> q \<longrightarrow>
         (low_stock_flag q (get_reorder_level k) = Some ''High'' \<longleftrightarrow>
            0 < q \<and> (of_int q :: rat) \<le> (1 / 2) * of_int (get_reorder_level k))"
      by auto
    with c show "(low_stock_flag q (get_reorder_level k) = Some ''Critical'' \<longleftrightarrow> q = 0) \<and>
      (low_stock_flag q (get_reorder_level k) = Some ''High'' \<longleftrightarrow>
         q \<noteq> 0 \<and> (of_int q :: rat) \<le> (1 / 2) * of_int (get_reorder_level k)) \<and>
      (low_stock_flag q (get_reorder_level k) = Some ''Medium'' \<longleftrightarrow>
         (1 / 2) * (of_int (get_reorder_level k) :: rat) < of_int q \<and>
         q \<le> get_reorder_level k) \<and>
      (low_stock_flag q (get_reorder_level k) = None \<longleftrightarrow> get_reorder_level k < q) \<and>
      (0 \<le> q \<longrightarrow>
         (low_stock_flag q (get_reorder_level k) = Some ''High'' \<longleftrightarrow>
            0 < q \<and> (of_int q :: rat) \<le> (1 / 2) * of_int (get_reorder_level k)))"
      by blast
  qed
  have alerts: "map (\<lambda>i. (item i, current_stock i, priority i)) (show_low_stock_alerts s) =
                  flagged (load_data_inventory (inventory_file s))"
    by (simp add: show_low_stock_alerts_def low_stock_items_flagged)
  from alerts flags scenario reorder_levels show ?thesis by (intro conjI)
qed

theorem low_stock_alerts_flags_witness:
  "(0 :: int) \<le> 3 \<and>
   low_stock_flag 3 (get_reorder_level ''tires'') = Some ''High'' \<and>
   flagged [(''oil'', 0), (''air_filter'', 12), (''tires'', 3)] =
     [(''Oil'', 0, ''Critical''), (''Tires'', 3, ''High'')] \<and>
   map (\<lambda>i. (item i, current_stock i, priority i))
     (show_low_stock_alerts ((initialize_data_files :: rat store)
        \<lparr>inventory_file := Some [(''oil'', 0), (''air_filter'', 12), (''tires'', 3)]\<rparr>)) =
     [(''Oil'', 0, ''Critical''), (''Tires'', 3, ''High'')]"
proof -
  let ?s = "(initialize_data_files :: rat store)
              \<lparr>inventory_file := Some [(''oil'', 0), (''air_filter'', 12), (''tires'', 3)]\<rparr>"
  note t = low_stock_alerts_flags [of ?s]
  have h: "(0 :: int) \<le> 3" by simp
  from t have "0 \<le> (3 :: int) \<longrightarrow>
         (low_stock_flag 3 (get_reorder_level ''tires'') = Some ''High'' \<longleftrightarrow>
            0 < (3 :: int) \<and> (of_int 3 :: rat) \<le> (1 / 2) * of_int (get_reorder_level ''tires''))"
    by blast
  with h have hi: "low_stock_flag 3 (get_reorder_level ''tires'') = Some ''High''"
    by (simp add: reorder_levels)
  have f: "flagged [(''oil'', 0), (''air_filter'', 12), (''tires'', 3)] =
             [(''Oil'', 0, ''Critical''), (''Tires'', 3, ''High'')]"
    by (simp add: flagged_def low_stock_flag_def reorder_levels item_names)
  from t have "map (\<lambda>i. (item i, current_stock i, priority i)) (show_low_stock_alerts ?s) =
                 flagged (load_data_inventory (inventory_file ?s))"
    by (rule conjunct1)
  with f have a: "map (\<lambda>i. (item i, current_stock i, priority i)) (show_low_stock_alerts ?s) =
                 [(''Oil'', 0, ''Critical''), (''Tires'', 3, ''High'')]"
    by (simp add: load_data_inventory_def)
  from h hi f a show ?thesis by (intro conjI)
qed

text \<open>
  After \<open>update_inventory('tires', -5, 'set')\<close> on the initial inventory the alert for
  tires is High, although its quantity \<open>- 5\<close> is not positive.
\<close>

theorem low_stock_counterexample:
  "show_low_stock_alerts
     (snd (update_inventory (initialize_data_files :: rat store) ''tires'' (- 5) ''set'')) =
     [\<lparr>item = ''Oil'', current_stock = 0, reorder_level = 5, priority = ''Critical'',
       recommended_order = 10\<rparr>,
      \<lparr>item = ''Air Filter'', current_stock = 0, reorder_level = 10, priority = ''Critical'',
       recommended_order = 20\<rparr>,
      \<lparr>item = ''Tires'', current_stock = - 5, reorder_level = 8, priority = ''High'',
       recommended_order = 21\<rparr>] \<and>
   \<not> (0 :: int) < - 5"
  by (simp add: update_inventory_def initialize_data_files_def load_data_inventory_def
      dict_set_def show_low_stock_alerts_def Let_def reorder_levels item_names priority_of_def)

section \<open>Maintenance records: insufficient stock\<close>

lemma add_maintenance_short:
  fixes s :: "('f::zero) store"
  assumes "oil_short (load_data_inventory (inventory_file s)) md \<or>
           air_filter_short (load_data_inventory (inventory_file s)) md \<or>
           tires_short (load_data_inventory (inventory_file s)) md"
  shows "(add_maintenance_record now s md =
            Inr ((False, ''Insufficient oil in inventory''), s) \<and>
          oil_short (load_data_inventory (inventory_file s)) md) \<or>
         (add_maintenance_record now s md =
            Inr ((False, ''Insufficient air filters in inventory''), s) \<and>
          air_filter_short (load_data_inventory (inventory_file s)) md) \<or>
         (add_maintenance_record now s md =
            Inr ((False, ''Insufficient tires in inventory''), s) \<and>
          tires_short (load_data_inventory (inventory_file s)) md)"
proof -
  let ?stock = "load_data_inventory (inventory_file s)"
  show ?thesis
  proof (cases "oil_short ?stock md")
    case True
    then have "add_maintenance_record now s md =
                 Inr ((False, ''Insufficient oil in inventory''), s)"
      by (simp add: add_maintenance_record_def oil_short_def Let_def)
    with True show ?thesis by simp
  next
    case no_oil: False
    show ?thesis
    proof (cases "air_filter_short ?stock md")
      case True
      with no_oil have "add_maintenance_record now s md =
                 Inr ((False, ''Insufficient air filters in inventory''), s)"
        by (auto simp: add_maintenance_record_def oil_short_def air_filter_short_def Let_def
            get_default_dict_set)
      with True show ?thesis by simp
    next
      case no_air: False
      with no_oil assms have t: "tires_short ?stock md" by simp
      then obtain n where n: "as_int (get_default md ''tires_changed'' (JInt 0)) = Inr n"
        "0 < n" "get_default ?stock ''tires'' 0 < n"
        by (auto simp: tires_short_def split: sum.splits)
      with no_oil no_air have "add_maintenance_record now s md =
                 Inr ((False, ''Insufficient tires in inventory''), s)"
        by (auto simp: add_maintenance_record_def oil_short_def air_filter_short_def Let_def
            get_default_dict_set)
      with t show ?thesis by simp
    qed
  qed
qed

text \<open>
  Claim C1. When a maintenance record asks for a part that the inventory cannot supply
  (oil or an air filter with the flag set and no unit in stock, or more tires than the
  stock holds), \<open>add_maintenance_record\<close> returns failure with the message of such a
  part, the first in the order oil, air filter, tires, and the store it leaves is the
  store it found: neither the inventory nor the maintenance collection is written, also
  when an earlier part was available and taken from the inventory in memory.
\<close>

theorem add_maintenance_record_insufficient:
  fixes s :: "('f::zero) store"
  assumes "oil_short (load_data_inventory (inventory_file s)) md \<or>
           air_filter_short (load_data_inventory (inventory_file s)) md \<or>
           tires_short (load_data_inventory (inventory_file s)) md"
  shows "\<exists>msg. add_maintenance_record now s md = Inr ((False, msg), s) \<and>
           ((msg = ''Insufficient oil in inventory'' \<and>
               oil_short (load_data_inventory (inventory_file s)) md) \<or>
            (msg = ''Insufficient air filters in inventory'' \<and>
               \<not> oil_short (load_data_inventory (inventory_file s)) md \<and>
               air_filter_short (load_data_inventory (inventory_file s)) md) \<or>
            (msg = ''Insufficient tires in inventory'' \<and>
               \<not> oil_short (load_data_inventory (inventory_file s)) md \<and>
               \<not> air_filter_short (load_data_inventory (inventory_file s)) md \<and>
               tires_short (load_data_inventory (inventory_file s)) md))"
proof -
  let ?stock = "load_data_inventory (inventory_file s)"
  have oil: "oil_short ?stock md \<Longrightarrow>
             add_maintenance_record now s md =
               Inr ((False, ''Insufficient oil in inventory''), s)"
    by (simp add: add_maintenance_record_def oil_short_def Let_def)
  have air: "\<not> oil_short ?stock md \<Longrightarrow> air_filter_short ?stock md \<Longrightarrow>
             add_maintenance_record now s md =
               Inr ((False, ''Insufficient air filters in inventory''), s)"
    by (auto simp: add_maintenance_record_def oil_short_def air_filter_short_def Let_def
        get_default_dict_set)
  from add_maintenance_short [OF assms, of now] oil air show ?thesis
    by (cases "oil_short ?stock md"; cases "air_filter_short ?stock md") auto
qed

theorem add_maintenance_record_insufficient_witness:
  "tires_short
     (load_data_inventory
        (inventory_file ((initialize_data_files :: rat store)
           \<lparr>inventory_file := Some [(''oil'', 2), (''air_filter'', 0), (''tires'', 1)]\<rparr>)))
     ([(''plate_number'', JStr ''ABC-123''), (''oil_changed'', JBool True),
       (''air_filter_changed'', JBool False), (''tires_changed'', JInt 4)] :: rat jdict) \<and>
   add_maintenance_record
     \<lparr>year = 2024, month = 5, day = 17, hour = 9, minute = 30, second = 0, microsecond = 0\<rparr>
     ((initialize_data_files :: rat store)
        \<lparr>inventory_file := Some [(''oil'', 2), (''air_filter'', 0), (''tires'', 1)]\<rparr>)
     [(''plate_number'', JStr ''ABC-123''), (''oil_changed'', JBool True),
      (''air_filter_changed'', JBool False), (''tires_changed'', JInt 4)] =
   Inr ((False, ''Insufficient tires in inventory''),
        (initialize_data_files :: rat store)
          \<lparr>inventory_file := Some [(''oil'', 2), (''air_filter'', 0), (''tires'', 1)]\<rparr>)"
proof -
  let ?s = "(initialize_data_files :: rat store)
              \<lparr>inventory_file := Some [(''oil'', 2), (''air_filter'', 0), (''tires'', 1)]\<rparr>"
  let ?md = "[(''plate_number'', JStr ''ABC-123''), (''oil_changed'', JBool True),
              (''air_filter_changed'', JBool False), (''tires_changed'', JInt 4)] :: rat jdict"
  let ?now = "\<lparr>year = 2024, month = 5, day = 17, hour = 9, minute = 30, second = 0,
               microsecond = 0\<rparr>"
  have t: "tires_short (load_data_inventory (inventory_file ?s)) ?md"
    by (simp add: tires_short_def load_data_inventory_def get_default_def)
  have no_oil: "\<not> oil_short (load_data_inventory (inventory_file ?s)) ?md"
    by (simp add: oil_short_def load_data_inventory_def get_default_def)
  have no_air: "\<not> air_filter_short (load_data_inventory (inventory_file ?s)) ?md"
    by (simp add: air_filter_short_def load_data_inventory_def get_default_def)
  have "oil_short (load_data_inventory (inventory_file ?s)) ?md \<or>
        air_filter_short (load_data_inventory (inventory_file ?s)) ?md \<or>
        tires_short (load_data_inventory (inventory_file ?s)) ?md"
    using t by simp
  from add_maintenance_record_insufficient [OF this, of ?now] no_oil no_air t
  show ?thesis by auto
qed

section \<open>Vehicles: unique plate numbers\<close>

lemma upper_char_idem: "upper_char (upper_char c) = upper_char c"
  by (simp add: upper_char_def)

lemma upper_idem: "upper (upper s) = upper s"
  by (simp add: upper_def upper_char_idem)

lemma plate_taken_iff:
  "plates_uppercased vs \<Longrightarrow> map_of vd ''plate_number'' = Some (JStr q) \<Longrightarrow>
   plate_taken vs vd = Inr (\<exists>v \<in> set vs. plate_of v = q)"
proof (induction vs)
  case Nil
  then show ?case by simp
next
  case (Cons v vs)
  from Cons.prems(1) obtain p where p: "map_of v ''plate_number'' = Some (JStr p)"
    and up: "plates_uppercased vs"
    by (auto simp: plates_uppercased_def split: option.splits jval.splits)
  from Cons.IH [OF up Cons.prems(2)] p Cons.prems(2) show ?case
    by (auto simp: dict_item_def plate_of_def)
qed

lemma isoformat_nonempty: "isoformat now \<noteq> []"
  by (simp add: isoformat_def)

lemma map_of_dict_set: "map_of (dict_set d k v) = (map_of d)(k \<mapsto> v)"
  by (simp add: dict_set_def update_conv')

lemma form_plate: "map_of (vehicle_form_data f) ''plate_number'' = Some (JStr (upper (vf_plate_number f)))"
  by (simp add: vehicle_form_data_def)


lemma plates_uppercased_Cons:
  "plates_uppercased (v # vs) =
     ((\<exists>p. map_of v ''plate_number'' = Some (JStr p) \<and> upper p = p) \<and> plates_uppercased vs)"
proof (cases "map_of v ''plate_number''")
  case None
  then show ?thesis by (simp add: plates_uppercased_def)
next
  case (Some x)
  then show ?thesis by (cases x) (simp_all add: plates_uppercased_def)
qed

lemma stored_plate_upper:
  "plates_uppercased vs \<Longrightarrow> v \<in> set vs \<Longrightarrow> upper (plate_of v) = plate_of v"
proof (induction vs)
  case Nil
  then show ?case by simp
next
  case (Cons a vs)
  then show ?case
    by (auto simp: plates_uppercased_Cons plate_of_def)
qed

text \<open>
  Claim C2. In a vehicle collection whose plate numbers are uppercased, a record
  submitted by the vehicle form (which uppercases the plate number) is rejected by
  \<open>add_vehicle\<close> when its plate number is the one of a stored vehicle up to case, and
  the store stays as it was; otherwise the record is appended with \<open>id\<close> the previous
  length plus one and a non-empty \<open>created_at\<close>, its other fields as submitted, the
  call returns success, and the plate numbers of the collection are still uppercased.
\<close>

theorem add_vehicle_unique_plate:
  fixes s :: "'f store"
  assumes "plates_uppercased (load_data_list (vehicles_file s))"
  shows "if \<exists>v \<in> set (load_data_list (vehicles_file s)).
               upper (plate_of v) = upper (vf_plate_number f)
         then add_vehicle now s (vehicle_form_data f) =
                Inr ((False, ''Vehicle with this plate number already exists''), s)
         else \<exists>new created.
                add_vehicle now s (vehicle_form_data f) =
                  Inr ((True, ''Vehicle added successfully''),
                       s\<lparr>vehicles_file := Some (load_data_list (vehicles_file s) @ [new])\<rparr>) \<and>
                map_of new ''id'' = Some (JInt (int (length (load_data_list (vehicles_file s))) + 1)) \<and>
                map_of new ''created_at'' = Some (JStr created) \<and> created \<noteq> [] \<and>
                (\<forall>k. k \<noteq> ''id'' \<and> k \<noteq> ''created_at'' \<longrightarrow>
                       map_of new k = map_of (vehicle_form_data f :: 'f jdict) k) \<and>
                plates_uppercased (load_data_list (vehicles_file s) @ [new])"
proof -
  let ?vs = "load_data_list (vehicles_file s)"
  let ?vd = "vehicle_form_data f :: 'f jdict"
  let ?new = "dict_set (dict_set ?vd ''created_at'' (JStr (isoformat now)))
                ''id'' (JInt (int (length ?vs) + 1))"
  have taken: "plate_taken ?vs ?vd = Inr (\<exists>v \<in> set ?vs. plate_of v = upper (vf_plate_number f))"
    using plate_taken_iff [OF assms form_plate] .
  have same: "(\<exists>v \<in> set ?vs. plate_of v = upper (vf_plate_number f)) =
              (\<exists>v \<in> set ?vs. upper (plate_of v) = upper (vf_plate_number f))"
    using stored_plate_upper [OF assms] by auto
  show ?thesis
  proof (cases "\<exists>v \<in> set ?vs. upper (plate_of v) = upper (vf_plate_number f)")
    case True
    with taken same have "plate_taken ?vs ?vd = Inr True" by simp
    then have "add_vehicle now s ?vd =
                 Inr ((False, ''Vehicle with this plate number already exists''), s)"
      by (simp add: add_vehicle_def Let_def)
    with True show ?thesis by simp
  next
    case False
    with taken same have "plate_taken ?vs ?vd = Inr False" by simp
    then have res: "add_vehicle now s ?vd =
                 Inr ((True, ''Vehicle added successfully''),
                      s\<lparr>vehicles_file := Some (?vs @ [?new])\<rparr>)"
      by (simp add: add_vehicle_def Let_def)
    have id: "map_of ?new ''id'' = Some (JInt (int (length ?vs) + 1))"
      by (simp add: map_of_dict_set)
    have cr: "map_of ?new ''created_at'' = Some (JStr (isoformat now))"
      by (simp add: map_of_dict_set)
    have rest: "\<forall>k. k \<noteq> ''id'' \<and> k \<noteq> ''created_at'' \<longrightarrow> map_of ?new k = map_of ?vd k"
      by (simp add: map_of_dict_set)
    have "map_of ?new ''plate_number'' = Some (JStr (upper (vf_plate_number f)))"
      by (simp add: map_of_dict_set form_plate)
    with assms have up: "plates_uppercased (?vs @ [?new])"
      by (simp add: plates_uppercased_def upper_idem)
    from res id cr rest up isoformat_nonempty [of now] False show ?thesis
      by (simp only: if_False) blast
  qed
qed

theorem add_vehicle_unique_plate_witness:
  "plates_uppercased
     (load_data_list (vehicles_file ((initialize_data_files :: rat store)
        \<lparr>vehicles_file := Some [[(''plate_number'', JStr ''ABC-123''),
                                   (''driver_name'', JStr ''Imran'')]]\<rparr>))) \<and>
   add_vehicle
     \<lparr>year = 2024, month = 5, day = 17, hour = 9, minute = 30, second = 0, microsecond = 0\<rparr>
     ((initialize_data_files :: rat store)
        \<lparr>vehicles_file := Some [[(''plate_number'', JStr ''ABC-123''),
                                   (''driver_name'', JStr ''Imran'')]]\<rparr>)
     (vehicle_form_data
        \<lparr>vf_plate_number = ''abc-123'', vf_driver_name = ''Bilal'', vf_helper_name = [],
         vf_permit_numbers = [], vf_tanker_size = 0, vf_vehicle_type = ''Tanker'',
         vf_make_model = [], vf_year = 2020, vf_engine_type = ''Diesel'',
         vf_status = ''Active''\<rparr>) =
   Inr ((False, ''Vehicle with this plate number already exists''),
        (initialize_data_files :: rat store)
          \<lparr>vehicles_file := Some [[(''plate_number'', JStr ''ABC-123''),
                                     (''driver_name'', JStr ''Imran'')]]\<rparr>)"
proof -
  let ?s = "(initialize_data_files :: rat store)
              \<lparr>vehicles_file := Some [[(''plate_number'', JStr ''ABC-123''),
                                         (''driver_name'', JStr ''Imran'')]]\<rparr>"
  let ?f = "\<lparr>vf_plate_number = ''abc-123'', vf_driver_name = ''Bilal'', vf_helper_name = [],
             vf_permit_numbers = [], vf_tanker_size = 0, vf_vehicle_type = ''Tanker'',
             vf_make_model = [], vf_year = 2020, vf_engine_type = ''Diesel'',
             vf_status = ''Active''\<rparr>"
  let ?now = "\<lparr>year = 2024, month = 5, day = 17, hour = 9, minute = 30, second = 0,
               microsecond = 0\<rparr>"
  have h: "plates_uppercased (load_data_list (vehicles_file ?s))"
    by (simp add: plates_uppercased_def load_data_list_def upper_def upper_char_def)
  have dup: "\<exists>v \<in> set (load_data_list (vehicles_file ?s)).
               upper (plate_of v) = upper (vf_plate_number ?f)"
    by (simp add: load_data_list_def plate_of_def upper_def upper_char_def)
  from add_vehicle_unique_plate [OF h, of ?f ?now] dup h show ?thesis
    by (simp only: if_True)
qed

section \<open>Updates by natural key\<close>

lemma map_of_dict_update:
  "distinct (map fst u) \<Longrightarrow> map_of (dict_update d u) = map_of d ++ map_of u"
proof (induction u arbitrary: d)
  case Nil
  then show ?case by (simp add: dict_update_def)
next
  case (Cons e u)
  obtain k v where e: "e = (k, v)" by (cases e)
  from Cons.prems have d: "distinct (map fst u)" and k: "k \<notin> dom (map_of u)"
    by (auto simp: e dom_map_of_conv_image_fst)
  have "map_of (dict_update d (e # u)) = map_of (dict_update (AList.update k v d) u)"
    by (simp add: dict_update_def e)
  also have "\<dots> = (map_of d)(k \<mapsto> v) ++ map_of u"
    by (simp only: Cons.IH [OF d] update_conv')
  also have "\<dots> = (map_of d ++ map_of u)(k \<mapsto> v)"
    using k by (rule map_add_upd_left)
  finally show ?case by (simp only: e map_of.simps fst_conv snd_conv map_add_upd)
qed

lemma update_where_none:
  "has_field key rs \<Longrightarrow> \<forall>r \<in> set rs. map_of r key \<noteq> Some (JStr k) \<Longrightarrow>
   update_where key k f rs = Inr None"
  by (induction rs) (auto simp: has_field_def dict_item_def split: option.splits)

lemma update_where_some:
  "has_field key rs \<Longrightarrow> \<exists>r \<in> set rs. map_of r key = Some (JStr k) \<Longrightarrow>
   \<exists>i < length rs. map_of (rs ! i) key = Some (JStr k) \<and>
       (\<forall>j < i. map_of (rs ! j) key \<noteq> Some (JStr k)) \<and>
       update_where key k f rs = Inr (Some (rs[i := f (rs ! i)]))"
proof (induction rs)
  case Nil
  then show ?case by simp
next
  case (Cons r rs)
  from Cons.prems(1) obtain v where v: "map_of r key = Some v" and wf: "has_field key rs"
    by (auto simp: has_field_def)
  show ?case
  proof (cases "v = JStr k")
    case True
    with v have "update_where key k f (r # rs) = Inr (Some ((r # rs)[0 := f ((r # rs) ! 0)]))"
      by (simp add: dict_item_def)
    moreover have "map_of ((r # rs) ! 0) key = Some (JStr k)" using v True by simp
    ultimately show ?thesis by blast
  next
    case False
    with v Cons.prems(2) have "\<exists>r \<in> set rs. map_of r key = Some (JStr k)" by auto
    from Cons.IH [OF wf this] obtain i where i: "i < length rs"
      "map_of (rs ! i) key = Some (JStr k)"
      "\<forall>j < i. map_of (rs ! j) key \<noteq> Some (JStr k)"
      "update_where key k f rs = Inr (Some (rs[i := f (rs ! i)]))" by blast
    have a: "Suc i < length (r # rs)" using i(1) by simp
    have b: "map_of ((r # rs) ! Suc i) key = Some (JStr k)" using i(2) by simp
    have c: "\<forall>j < Suc i. map_of ((r # rs) ! j) key \<noteq> Some (JStr k)"
    proof (intro allI impI)
      fix j assume "j < Suc i"
      then show "map_of ((r # rs) ! j) key \<noteq> Some (JStr k)"
        using i(3) v False by (cases j) auto
    qed
    have d: "update_where key k f (r # rs) =
               Inr (Some ((r # rs)[Suc i := f ((r # rs) ! Suc i)]))"
      using v False i(4) by (simp add: dict_item_def)
    from a b c d show ?thesis by blast
  qed
qed


text \<open>
  Claim C8. In collections whose records all carry their natural key, \<open>update_vehicle\<close>
  (by plate number) and \<open>update_load_status\<close> (by load number) return failure and leave
  the store as it was when no record has the key. When a record has it, the call returns
  success and the saved collection differs from the previous one in one record with that
  key only: its fields are the previous ones, overridden by the supplied fields (for a
  load, the status) and then by \<open>updated_at\<close>, the time of the call.
\<close>

theorem update_by_natural_key:
  fixes s :: "'f store"
  assumes "has_field ''plate_number'' (load_data_list (vehicles_file s))"
    and "has_field ''load_number'' (load_data_list (loads_file s))"
    and "distinct (map fst updated_data)"
  shows "(if \<forall>v \<in> set (load_data_list (vehicles_file s)).
                map_of v ''plate_number'' \<noteq> Some (JStr plate_number)
          then update_vehicle now s plate_number updated_data =
                 Inr ((False, ''Vehicle not found''), s)
          else \<exists>i new. i < length (load_data_list (vehicles_file s)) \<and>
                 map_of (load_data_list (vehicles_file s) ! i) ''plate_number'' =
                   Some (JStr plate_number) \<and>
                 update_vehicle now s plate_number updated_data =
                   Inr ((True, ''Vehicle updated successfully''),
                        s\<lparr>vehicles_file :=
                            Some ((load_data_list (vehicles_file s))[i := new])\<rparr>) \<and>
                 map_of new =
                   (map_of (load_data_list (vehicles_file s) ! i) ++ map_of updated_data)
                     (''updated_at'' \<mapsto> JStr (isoformat now))) \<and>
         (if \<forall>l \<in> set (load_data_list (loads_file s)).
                map_of l ''load_number'' \<noteq> Some (JStr load_number)
          then update_load_status now s load_number new_status =
                 Inr ((False, ''Load not found''), s)
          else \<exists>i new. i < length (load_data_list (loads_file s)) \<and>
                 map_of (load_data_list (loads_file s) ! i) ''load_number'' =
                   Some (JStr load_number) \<and>
                 update_load_status now s load_number new_status =
                   Inr ((True, ''Load status updated successfully''),
                        s\<lparr>loads_file := Some ((load_data_list (loads_file s))[i := new])\<rparr>) \<and>
                 map_of new =
                   (map_of (load_data_list (loads_file s) ! i))
                     (''status'' \<mapsto> JStr new_status,
                      ''updated_at'' \<mapsto> JStr (isoformat now)))"
proof -
  let ?vs = "load_data_list (vehicles_file s)"
  let ?ls = "load_data_list (loads_file s)"
  let ?fv = "\<lambda>vehicle. dict_set (dict_update vehicle updated_data)
                          ''updated_at'' (JStr (isoformat now))"
  let ?fl = "\<lambda>load. dict_set (dict_set load ''status'' (JStr new_status))
                        ''updated_at'' (JStr (isoformat now))"
  have fv: "map_of (?fv r) = (map_of r ++ map_of updated_data)
                               (''updated_at'' \<mapsto> JStr (isoformat now))" for r :: "'f jdict"
    by (simp only: dict_set_def update_conv' map_of_dict_update [OF assms(3)])
  have fl: "map_of (?fl r) = (map_of r)(''status'' \<mapsto> JStr new_status,
                               ''updated_at'' \<mapsto> JStr (isoformat now))" for r :: "'f jdict"
    by (simp only: dict_set_def update_conv')
  have v: "if \<forall>v \<in> set ?vs. map_of v ''plate_number'' \<noteq> Some (JStr plate_number)
          then update_vehicle now s plate_number updated_data =
                 Inr ((False, ''Vehicle not found''), s)
          else \<exists>i new. i < length ?vs \<and>
                 map_of (?vs ! i) ''plate_number'' = Some (JStr plate_number) \<and>
                 update_vehicle now s plate_number updated_data =
                   Inr ((True, ''Vehicle updated successfully''),
                        s\<lparr>vehicles_file := Some (?vs[i := new])\<rparr>) \<and>
                 map_of new = (map_of (?vs ! i) ++ map_of updated_data)
                     (''updated_at'' \<mapsto> JStr (isoformat now))"
  proof (cases "\<forall>v \<in> set ?vs. map_of v ''plate_number'' \<noteq> Some (JStr plate_number)")
    case True
    from update_where_none [OF assms(1) True, of ?fv] True show ?thesis
      by (simp add: update_vehicle_def Let_def)
  next
    case False
    then have "\<exists>v \<in> set ?vs. map_of v ''plate_number'' = Some (JStr plate_number)" by blast
    from update_where_some [OF assms(1) this, of ?fv] obtain i where i: "i < length ?vs"
      "map_of (?vs ! i) ''plate_number'' = Some (JStr plate_number)"
      "update_where ''plate_number'' plate_number ?fv ?vs = Inr (Some (?vs[i := ?fv (?vs ! i)]))"
      by blast
    from i(3) have "update_vehicle now s plate_number updated_data =
                   Inr ((True, ''Vehicle updated successfully''),
                        s\<lparr>vehicles_file := Some (?vs[i := ?fv (?vs ! i)])\<rparr>)"
      by (simp add: update_vehicle_def Let_def)
    with i(1,2) fv [of "?vs ! i"] False show ?thesis
      by (simp only: if_False) blast
  qed
  have l: "if \<forall>l \<in> set ?ls. map_of l ''load_number'' \<noteq> Some (JStr load_number)
          then update_load_status now s load_number new_status =
                 Inr ((False, ''Load not found''), s)
          else \<exists>i new. i < length ?ls \<and>
                 map_of (?ls ! i) ''load_number'' = Some (JStr load_number) \<and>
                 update_load_status now s load_number new_status =
                   Inr ((True, ''Load status updated successfully''),
                        s\<lparr>loads_file := Some (?ls[i := new])\<rparr>) \<and>
                 map_of new = (map_of (?ls ! i))(''status'' \<mapsto> JStr new_status,
                      ''updated_at'' \<mapsto> JStr (isoformat now))"
  proof (cases "\<forall>l \<in> set ?ls. map_of l ''load_number'' \<noteq> Some (JStr load_number)")
    case True
    from update_where_none [OF assms(2) True, of ?fl] True show ?thesis
      by (simp add: update_load_status_def Let_def)
  next
    case False
    then have "\<exists>l \<in> set ?ls. map_of l ''load_number'' = Some (JStr load_number)" by blast
    from update_where_some [OF assms(2) this, of ?fl] obtain i where i: "i < length ?ls"
      "map_of (?ls ! i) ''load_number'' = Some (JStr load_number)"
      "update_where ''load_number'' load_number ?fl ?ls = Inr (Some (?ls[i := ?fl (?ls ! i)]))"
      by blast
    from i(3) have "update_load_status now s load_number new_status =
                   Inr ((True, ''Load status updated successfully''),
                        s\<lparr>loads_file := Some (?ls[i := ?fl (?ls ! i)])\<rparr>)"
      by (simp add: update_load_status_def Let_def)
    with i(1,2) fl [of "?ls ! i"] False show ?thesis
      by (simp only: if_False) blast
  qed
  from v l show ?thesis by (rule conjI)
qed

theorem update_by_natural_key_witness:
  "has_field ''plate_number''
     (load_data_list (vehicles_file ((initialize_data_files :: rat store)
        \<lparr>vehicles_file := Some [[(''plate_number'', JStr ''ABC-123''),
                                   (''status'', JStr ''Active'')]],
         loads_file := Some [[(''load_number'', JStr ''LD000001''),
                                (''status'', JStr ''Loading'')]]\<rparr>))) \<and>
   has_field ''load_number''
     (load_data_list (loads_file ((initialize_data_files :: rat store)
        \<lparr>vehicles_file := Some [[(''plate_number'', JStr ''ABC-123''),
                                   (''status'', JStr ''Active'')]],
         loads_file := Some [[(''load_number'', JStr ''LD000001''),
                                (''status'', JStr ''Loading'')]]\<rparr>))) \<and>
   distinct (map fst [(''status'', JStr ''Maintenance'' :: rat jval)]) \<and>
   (\<exists>i new.
      i < 1 \<and>
      update_vehicle
        \<lparr>year = 2024, month = 5, day = 17, hour = 9, minute = 30, second = 0, microsecond = 0\<rparr>
        ((initialize_data_files :: rat store)
           \<lparr>vehicles_file := Some [[(''plate_number'', JStr ''ABC-123''),
                                      (''status'', JStr ''Active'')]],
            loads_file := Some [[(''load_number'', JStr ''LD000001''),
                                   (''status'', JStr ''Loading'')]]\<rparr>)
        ''ABC-123'' [(''status'', JStr ''Maintenance'')] =
      Inr ((True, ''Vehicle updated successfully''),
           (initialize_data_files :: rat store)
             \<lparr>vehicles_file := Some ([[(''plate_number'', JStr ''ABC-123''),
                                        (''status'', JStr ''Active'')]][i := new]),
              loads_file := Some [[(''load_number'', JStr ''LD000001''),
                                     (''status'', JStr ''Loading'')]]\<rparr>) \<and>
      map_of new ''status'' = Some (JStr ''Maintenance'') \<and>
      map_of new ''plate_number'' = Some (JStr ''ABC-123'')) \<and>
   update_load_status
     \<lparr>year = 2024, month = 5, day = 17, hour = 9, minute = 30, second = 0, microsecond = 0\<rparr>
     ((initialize_data_files :: rat store)
        \<lparr>vehicles_file := Some [[(''plate_number'', JStr ''ABC-123''),
                                   (''status'', JStr ''Active'')]],
         loads_file := Some [[(''load_number'', JStr ''LD000001''),
                                (''status'', JStr ''Loading'')]]\<rparr>)
     ''LD000009'' ''Delivered'' =
   Inr ((False, ''Load not found''),
        (initialize_data_files :: rat store)
          \<lparr>vehicles_file := Some [[(''plate_number'', JStr ''ABC-123''),
                                     (''status'', JStr ''Active'')]],
           loads_file := Some [[(''load_number'', JStr ''LD000001''),
                                  (''status'', JStr ''Loading'')]]\<rparr>)"
proof -
  let ?s = "(initialize_data_files :: rat store)
              \<lparr>vehicles_file := Some [[(''plate_number'', JStr ''ABC-123''),
                                         (''status'', JStr ''Active'')]],
               loads_file := Some [[(''load_number'', JStr ''LD000001''),
                                      (''status'', JStr ''Loading'')]]\<rparr>"
  let ?upd = "[(''status'', JStr ''Maintenance'')] :: rat jdict"
  let ?now = "\<lparr>year = 2024, month = 5, day = 17, hour = 9, minute = 30, second = 0,
               microsecond = 0\<rparr>"
  have h1: "has_field ''plate_number'' (load_data_list (vehicles_file ?s))"
    by (simp add: has_field_def load_data_list_def)
  have h2: "has_field ''load_number'' (load_data_list (loads_file ?s))"
    by (simp add: has_field_def load_data_list_def)
  have h3: "distinct (map fst ?upd)" by simp
  have c1: "\<not> (\<forall>v \<in> set (load_data_list (vehicles_file ?s)).
                 map_of v ''plate_number'' \<noteq> Some (JStr ''ABC-123''))"
    by (simp add: load_data_list_def)
  have c2: "\<forall>l \<in> set (load_data_list (loads_file ?s)).
              map_of l ''load_number'' \<noteq> Some (JStr ''LD000009'')"
    by (simp add: load_data_list_def)
  note t = update_by_natural_key [OF h1 h2 h3, of "''ABC-123''" ?now "''LD000009''" "''Delivered''"]
  from t c1 obtain i new where v:
    "i < length (load_data_list (vehicles_file ?s))"
    "update_vehicle ?now ?s ''ABC-123'' ?upd =
       Inr ((True, ''Vehicle updated successfully''),
            ?s\<lparr>vehicles_file := Some ((load_data_list (vehicles_file ?s))[i := new])\<rparr>)"
    "map_of new = (map_of (load_data_list (vehicles_file ?s) ! i) ++ map_of ?upd)
                    (''updated_at'' \<mapsto> JStr (isoformat ?now))"
    by (simp only: if_False) blast
  from v(1) have i0: "i = 0" by (simp add: load_data_list_def)
  from v(3) have m: "map_of new ''status'' = Some (JStr ''Maintenance'')"
    "map_of new ''plate_number'' = Some (JStr ''ABC-123'')"
    by (simp_all add: i0 load_data_list_def map_add_def)
  from t c2 have l: "update_load_status ?now ?s ''LD000009'' ''Delivered'' =
                       Inr ((False, ''Load not found''), ?s)"
    by (simp only: if_True)
  have "i < 1" using i0 by simp
  moreover from v(2) have "update_vehicle ?now ?s ''ABC-123'' ?upd =
       Inr ((True, ''Vehicle updated successfully''),
            (initialize_data_files :: rat store)
             \<lparr>vehicles_file := Some ([[(''plate_number'', JStr ''ABC-123''),
                                        (''status'', JStr ''Active'')]][i := new]),
              loads_file := Some [[(''load_number'', JStr ''LD000001''),
                                     (''status'', JStr ''Loading'')]]\<rparr>)"
    by (simp add: load_data_list_def)
  ultimately show ?thesis using h1 h2 h3 m l by blast
qed

section \<open>Expiring documents and compliance\<close>

lemma expire_date_ofD:
  "expire_date_of parse doc = Some e \<Longrightarrow>
   \<exists>s. map_of doc ''expire_date'' = Some (JStr s) \<and> parse s = Some e"
  by (auto simp: expire_date_of_def split: option.splits jval.splits)

lemma days_to_expire_dated:
  "expire_date_of parse doc = Some e \<Longrightarrow>
   days_to_expire parse now doc = Inr (toordinal e - toordinal now)"
  by (auto dest!: expire_date_ofD simp: days_to_expire_def dict_item_def fromisoformat_def)

lemma expiring_filter:
  "dated parse docs \<Longrightarrow>
   expiring parse now days_ahead docs = Inr (filter (expires_within parse now days_ahead) docs)"
proof (induction docs)
  case Nil
  then show ?case by simp
next
  case (Cons doc docs)
  from Cons.prems obtain e where e: "expire_date_of parse doc = Some e" and d: "dated parse docs"
    by (auto simp: dated_def)
  from Cons.IH [OF d] days_to_expire_dated [OF e, of now] e show ?case
    by (simp add: expires_within_def)
qed

lemma valid_docs_filter:
  "dated parse docs \<Longrightarrow> valid_docs parse now docs = Inr (filter (unexpired parse now) docs)"
proof (induction docs)
  case Nil
  then show ?case by simp
next
  case (Cons doc docs)
  from Cons.prems obtain e where e: "expire_date_of parse doc = Some e" and d: "dated parse docs"
    by (auto simp: dated_def)
  from expire_date_ofD [OF e] obtain s where s: "map_of doc ''expire_date'' = Some (JStr s)"
    "parse s = Some e" by blast
  from Cons.IH [OF d] s e show ?case
    by (simp add: unexpired_def dict_item_def fromisoformat_def)
qed

lemma has_field_Cons:
  "has_field key (r # rs) = ((\<exists>v. map_of r key = Some v) \<and> has_field key rs)"
  by (auto simp: has_field_def)

lemma records_of_plate_filter:
  "has_field ''plate_number'' rs \<Longrightarrow>
   records_of_plate plate rs = Inr (filter (\<lambda>m. map_of m ''plate_number'' = Some plate) rs)"
proof (induction rs)
  case Nil
  then show ?case by simp
next
  case (Cons r rs)
  from Cons.prems obtain v where v: "map_of r ''plate_number'' = Some v"
    and wf: "has_field ''plate_number'' rs" by (auto simp: has_field_Cons)
  from Cons.IH [OF wf] v show ?case by (auto simp: dict_item_def)
qed

lemma dated_filter: "dated parse docs \<Longrightarrow> dated parse (filter P docs)"
  by (simp add: dated_def list_all_iff)

text \<open>
  Claim C5. When every permit and every tax record has an expiry date that parses,
  \<open>get_expiring_permits\<close> and \<open>get_expiring_taxes\<close> return, in the order of the
  collection, exactly the records whose expiry date, as a calendar date, is at most
  \<open>days_ahead\<close> days after today; a record that expired before today is among them
  for every non-negative \<open>days_ahead\<close>.
\<close>

theorem expiring_documents:
  fixes s :: "'f store"
  assumes "dated parse (load_data_list (permits_file s))"
    and "dated parse (load_data_list (token_tax_file s))"
  shows "get_expiring_permits parse now s days_ahead =
           Inr (filter (expires_within parse now days_ahead) (load_data_list (permits_file s))) \<and>
         get_expiring_taxes parse now s days_ahead =
           Inr (filter (expires_within parse now days_ahead)
                  (load_data_list (token_tax_file s))) \<and>
         (\<forall>doc expire_date.
            expire_date_of parse (doc :: 'f jdict) = Some expire_date \<longrightarrow>
            expires_within parse now days_ahead doc =
              (toordinal expire_date - toordinal now \<le> days_ahead)) \<and>
         (\<forall>doc expire_date.
            expire_date_of parse (doc :: 'f jdict) = Some expire_date \<and>
            toordinal expire_date < toordinal now \<and> 0 \<le> days_ahead \<longrightarrow>
            expires_within parse now days_ahead doc)"
  using expiring_filter [OF assms(1), of now days_ahead]
        expiring_filter [OF assms(2), of now days_ahead]
  by (auto simp: get_expiring_permits_def get_expiring_taxes_def expires_within_def)

lemma compliance_entry_eq:
  assumes "has_field ''plate_number'' permits" and "has_field ''plate_number'' tax_records"
    and "dated parse permits" and "dated parse tax_records"
    and "map_of vehicle ''plate_number'' = Some plate"
  shows "\<exists>color. compliance_entry parse now permits tax_records vehicle =
           Inr [(''vehicle'', plate),
                (''status'', JStr
                   (if has_valid parse now plate permits \<and> has_valid parse now plate tax_records
                    then ''Compliant''
                    else if has_valid parse now plate permits \<or>
                            has_valid parse now plate tax_records
                    then ''Partial'' else ''Non-Compliant'')),
                (''color'', JStr color),
                (''permits'', JInt (int (length (filter (unexpired parse now)
                    (filter (\<lambda>m. map_of m ''plate_number'' = Some plate) permits))))),
                (''taxes'', JInt (int (length (filter (unexpired parse now)
                    (filter (\<lambda>m. map_of m ''plate_number'' = Some plate) tax_records)))))]"
proof -
  let ?P = "\<lambda>m. map_of m ''plate_number'' = Some plate"
  have hv: "has_valid parse now plate docs = (filter (unexpired parse now) (filter ?P docs) \<noteq> [])"
    for docs :: "'a jdict list"
    by (auto simp: has_valid_def list_ex_iff filter_empty_conv)
  have vp: "valid_docs parse now (filter ?P permits) =
              Inr (filter (unexpired parse now) (filter ?P permits))"
    using valid_docs_filter [OF dated_filter [OF assms(3)]] .
  have vt: "valid_docs parse now (filter ?P tax_records) =
              Inr (filter (unexpired parse now) (filter ?P tax_records))"
    using valid_docs_filter [OF dated_filter [OF assms(4)]] .
  show ?thesis
    unfolding compliance_entry_def
    by (simp add: dict_item_def assms(5) records_of_plate_filter [OF assms(1)]
        records_of_plate_filter [OF assms(2)] vp vt hv Let_def del: filter_filter)
qed

lemma document_compliance_entries:
  assumes "has_field ''plate_number'' vehicles"
    and "has_field ''plate_number'' permits" and "has_field ''plate_number'' tax_records"
    and "dated parse permits" and "dated parse tax_records"
  shows "\<exists>entries.
           show_document_compliance parse now vehicles permits tax_records = Inr entries \<and>
           list_all2
             (\<lambda>vehicle entry.
                \<exists>plate. map_of vehicle ''plate_number'' = Some plate \<and>
                  map_of entry ''vehicle'' = Some plate \<and>
                  map_of entry ''status'' =
                    Some (JStr (compliance_status parse now permits tax_records plate)))
             vehicles entries"
  using assms(1)
proof (induction vehicles)
  case Nil
  then show ?case by simp
next
  case (Cons v vs)
  from Cons.prems obtain plate where p: "map_of v ''plate_number'' = Some plate"
    and wf: "has_field ''plate_number'' vs" by (auto simp: has_field_Cons)
  from compliance_entry_eq [OF assms(2,3,4,5) p, of now]
  obtain entry where e: "compliance_entry parse now permits tax_records v = Inr entry"
    "map_of entry ''vehicle'' = Some plate"
    "map_of entry ''status'' = Some (JStr (compliance_status parse now permits tax_records plate))"
    by (auto simp: compliance_status_def)
  from Cons.IH [OF wf] obtain entries where
    es: "show_document_compliance parse now vs permits tax_records = Inr entries"
    "list_all2
             (\<lambda>vehicle entry.
                \<exists>plate. map_of vehicle ''plate_number'' = Some plate \<and>
                  map_of entry ''vehicle'' = Some plate \<and>
                  map_of entry ''status'' =
                    Some (JStr (compliance_status parse now permits tax_records plate)))
             vs entries" by blast
  have "show_document_compliance parse now (v # vs) permits tax_records = Inr (entry # entries)"
    using e(1) es(1) by simp
  with e(2,3) es(2) p show ?case by auto
qed

text \<open>
  Claim C4. For vehicles, permits and tax records that all carry a plate number, with
  expiry dates that parse, \<open>show_document_compliance\<close> gives every vehicle, in order,
  the status of the specification: Compliant if and only if the vehicle has a permit and
  a tax record whose expiry dates are after today, Partial if and only if it has exactly
  one of the two, and Non-Compliant if and only if it has neither.
\<close>

theorem document_compliance:
  assumes "has_field ''plate_number'' vehicles"
    and "has_field ''plate_number'' permits" and "has_field ''plate_number'' tax_records"
    and "dated parse permits" and "dated parse tax_records"
  shows "(\<exists>entries.
            show_document_compliance parse now vehicles permits tax_records = Inr entries \<and>
            list_all2
              (\<lambda>vehicle entry.
                 \<exists>plate. map_of vehicle ''plate_number'' = Some plate \<and>
                   map_of entry ''vehicle'' = Some plate \<and>
                   map_of entry ''status'' =
                     Some (JStr (compliance_status parse now permits tax_records plate)))
              vehicles entries) \<and>
         (\<forall>plate.
            (compliance_status parse now permits tax_records plate = ''Compliant'' \<longleftrightarrow>
               has_valid parse now plate permits \<and> has_valid parse now plate tax_records) \<and>
            (compliance_status parse now permits tax_records plate = ''Partial'' \<longleftrightarrow>
               (has_valid parse now plate permits \<and> \<not> has_valid parse now plate tax_records) \<or>
               (\<not> has_valid parse now plate permits \<and> has_valid parse now plate tax_records)) \<and>
            (compliance_status parse now permits tax_records plate = ''Non-Compliant'' \<longleftrightarrow>
               \<not> has_valid parse now plate permits \<and>
               \<not> has_valid parse now plate tax_records)) \<and>
         (\<forall>plate docs.
            has_valid parse now plate (docs :: 'a jdict list) \<longleftrightarrow>
              (\<exists>doc \<in> set docs. \<exists>expire_date.
                 map_of doc ''plate_number'' = Some plate \<and>
                 expire_date_of parse doc = Some expire_date \<and>
                 date_less now expire_date))"
proof -
  have "\<forall>plate docs.
          has_valid parse now plate (docs :: 'a jdict list) \<longleftrightarrow>
            (\<exists>doc \<in> set docs. \<exists>expire_date.
               map_of doc ''plate_number'' = Some plate \<and>
               expire_date_of parse doc = Some expire_date \<and>
               date_less now expire_date)"
    by (auto simp: has_valid_def list_ex_iff unexpired_def split: option.splits)
  moreover have "\<forall>plate.
            (compliance_status parse now permits tax_records plate = ''Compliant'' \<longleftrightarrow>
               has_valid parse now plate permits \<and> has_valid parse now plate tax_records) \<and>
            (compliance_status parse now permits tax_records plate = ''Partial'' \<longleftrightarrow>
               (has_valid parse now plate permits \<and> \<not> has_valid parse now plate tax_records) \<or>
               (\<not> has_valid parse now plate permits \<and> has_valid parse now plate tax_records)) \<and>
            (compliance_status parse now permits tax_records plate = ''Non-Compliant'' \<longleftrightarrow>
               \<not> has_valid parse now plate permits \<and>
               \<not> has_valid parse now plate tax_records)"
    by (simp add: compliance_status_def)
  ultimately show ?thesis
    using document_compliance_entries [OF assms, of now] by blast
qed

lemmas parse_defs = parse_isoformat_def parse_date_fields_def parse_time_fields_def read_nat_def
  digit_value_def days_in_month_def is_leap_def

lemmas ordinal_defs = toordinal_def days_before_year_def days_before_month_def days_in_month_def
  is_leap_def Let_def

lemma sample_dates:
  "expire_date_of parse_isoformat sample_permit =
     Some \<lparr>year = 2024, month = 5, day = 22, hour = 0, minute = 0, second = 0, microsecond = 0\<rparr>"
  "expire_date_of parse_isoformat sample_expired_permit =
     Some \<lparr>year = 2024, month = 5, day = 2, hour = 0, minute = 0, second = 0, microsecond = 0\<rparr>"
  "expire_date_of parse_isoformat sample_tax =
     Some \<lparr>year = 2024, month = 6, day = 26, hour = 0, minute = 0, second = 0, microsecond = 0\<rparr>"
  by (simp_all add: expire_date_of_def sample_permit_def sample_expired_permit_def sample_tax_def
      parse_defs)

lemma sample_days:
  "toordinal \<lparr>year = 2024, month = 5, day = 22, hour = 0, minute = 0, second = 0,
               microsecond = 0\<rparr> - toordinal sample_now = 5"
  "toordinal \<lparr>year = 2024, month = 5, day = 2, hour = 0, minute = 0, second = 0,
               microsecond = 0\<rparr> - toordinal sample_now = - 15"
  "toordinal \<lparr>year = 2024, month = 6, day = 26, hour = 0, minute = 0, second = 0,
               microsecond = 0\<rparr> - toordinal sample_now = 40"
  by (simp_all add: sample_now_def ordinal_defs)

theorem expiring_documents_witness:
  "dated parse_isoformat (load_data_list (permits_file sample_store)) \<and>
   dated parse_isoformat (load_data_list (token_tax_file sample_store)) \<and>
   get_expiring_permits parse_isoformat sample_now sample_store 30 =
     Inr [sample_permit, sample_expired_permit] \<and>
   get_expiring_taxes parse_isoformat sample_now sample_store 30 = Inr []"
proof -
  have h1: "dated parse_isoformat (load_data_list (permits_file sample_store))"
    by (simp add: dated_def sample_store_def load_data_list_def sample_dates)
  have h2: "dated parse_isoformat (load_data_list (token_tax_file sample_store))"
    by (simp add: dated_def sample_store_def load_data_list_def sample_dates)
  have f1: "filter (expires_within parse_isoformat sample_now 30)
              (load_data_list (permits_file sample_store)) =
            [sample_permit, sample_expired_permit]"
    by (simp add: sample_store_def load_data_list_def expires_within_def sample_dates sample_days)
  have f2: "filter (expires_within parse_isoformat sample_now 30)
              (load_data_list (token_tax_file sample_store)) = []"
    by (simp add: sample_store_def load_data_list_def expires_within_def sample_dates sample_days)
  from expiring_documents [OF h1 h2, of sample_now 30] h1 h2 f1 f2 show ?thesis
    by simp
qed

lemma sample_unexpired:
  "unexpired parse_isoformat sample_now sample_permit"
  "unexpired parse_isoformat sample_now sample_tax"
  by (simp_all add: unexpired_def sample_dates date_less_def sample_now_def)

theorem document_compliance_witness:
  "has_field ''plate_number'' [sample_vehicle] \<and>
   has_field ''plate_number'' [sample_permit, sample_expired_permit] \<and>
   has_field ''plate_number'' [sample_tax] \<and>
   dated parse_isoformat [sample_permit, sample_expired_permit] \<and>
   dated parse_isoformat [sample_tax] \<and>
   (\<exists>entry.
      show_document_compliance parse_isoformat sample_now [sample_vehicle]
        [sample_permit, sample_expired_permit] [sample_tax] = Inr [entry] \<and>
      map_of entry ''vehicle'' = Some (JStr ''ABC-123'') \<and>
      map_of entry ''status'' = Some (JStr ''Compliant''))"
proof -
  let ?ps = "[sample_permit, sample_expired_permit]"
  have h1: "has_field ''plate_number'' [sample_vehicle]"
    by (simp add: has_field_def sample_vehicle_def)
  have h2: "has_field ''plate_number'' ?ps"
    by (simp add: has_field_def sample_permit_def sample_expired_permit_def)
  have h3: "has_field ''plate_number'' [sample_tax]"
    by (simp add: has_field_def sample_tax_def)
  have h4: "dated parse_isoformat ?ps" by (simp add: dated_def sample_dates)
  have h5: "dated parse_isoformat [sample_tax]" by (simp add: dated_def sample_dates)
  have p: "map_of sample_vehicle ''plate_number'' = Some (JStr ''ABC-123'')"
    by (simp add: sample_vehicle_def)
  have hp: "has_valid parse_isoformat sample_now (JStr ''ABC-123'') ?ps"
    by (simp add: has_valid_def sample_unexpired) (simp add: sample_permit_def)
  have ht: "has_valid parse_isoformat sample_now (JStr ''ABC-123'') [sample_tax]"
    by (simp add: has_valid_def sample_unexpired) (simp add: sample_tax_def)
  have st: "compliance_status parse_isoformat sample_now ?ps [sample_tax] (JStr ''ABC-123'') =
              ''Compliant''"
    by (simp add: compliance_status_def hp ht)
  from document_compliance [OF h1 h2 h3 h4 h5, of sample_now, THEN conjunct1]
  obtain entries where e:
    "show_document_compliance parse_isoformat sample_now [sample_vehicle] ?ps [sample_tax] =
       Inr entries"
    "list_all2
       (\<lambda>vehicle entry.
          \<exists>plate. map_of vehicle ''plate_number'' = Some plate \<and>
            map_of entry ''vehicle'' = Some plate \<and>
            map_of entry ''status'' =
              Some (JStr (compliance_status parse_isoformat sample_now ?ps [sample_tax] plate)))
       [sample_vehicle] entries"
    by blast
  from e(2) obtain entry where entry: "entries = [entry]"
    "\<exists>plate. map_of sample_vehicle ''plate_number'' = Some plate \<and>
       map_of entry ''vehicle'' = Some plate \<and>
       map_of entry ''status'' =
         Some (JStr (compliance_status parse_isoformat sample_now ?ps [sample_tax] plate))"
    by (auto simp: list_all2_Cons1)
  from entry(2) p st have "map_of entry ''vehicle'' = Some (JStr ''ABC-123'')"
    "map_of entry ''status'' = Some (JStr ''Compliant'')" by auto
  with e(1) entry(1) h1 h2 h3 h4 h5 show ?thesis by blast
qed

section \<open>Maintenance alerts: age of the last service\<close>

lemma stamped_Cons:
  "stamped parse (m # ms) =
     ((\<exists>s. map_of m ''created_at'' = Some (JStr s) \<and> parse s \<noteq> None) \<and> stamped parse ms)"
proof (cases "map_of m ''created_at''")
  case None
  then show ?thesis by (simp add: stamped_def)
next
  case (Some x)
  then show ?thesis by (cases x) (simp_all add: stamped_def)
qed

lemma stamped_member:
  "stamped parse ms \<Longrightarrow> m \<in> set ms \<Longrightarrow>
   \<exists>s. map_of m ''created_at'' = Some (JStr s) \<and> parse s \<noteq> None"
  by (induction ms) (auto simp: stamped_Cons)

lemma stamped_filter: "stamped parse ms \<Longrightarrow> stamped parse (filter P ms)"
  by (induction ms) (auto simp: stamped_Cons)

lemma created_key_stamped:
  "map_of m ''created_at'' = Some (JStr s) \<Longrightarrow> created_key m = Inr (created_of m)"
  by (simp add: created_key_def created_of_def)

lemma max_by_created_max:
  "stamped parse rest \<Longrightarrow> k = created_of best \<Longrightarrow>
   \<exists>m. max_by_created (best, k) rest = Inr m \<and> m \<in> set (best # rest) \<and>
       (\<forall>m' \<in> set (best # rest). created_of m' \<le> created_of m)"
proof (induction rest arbitrary: best k)
  case Nil
  then show ?case by simp
next
  case (Cons r rest)
  from Cons.prems(1) obtain s where s: "map_of r ''created_at'' = Some (JStr s)"
    and st: "stamped parse rest" by (auto simp: stamped_Cons)
  have ck: "created_key r = Inr (created_of r)" using created_key_stamped [OF s] .
  show ?case
  proof (cases "created_of r > k")
    case True
    from Cons.IH [OF st refl, of r] obtain m where
      m: "max_by_created (r, created_of r) rest = Inr m" "m \<in> set (r # rest)"
         "\<forall>m' \<in> set (r # rest). created_of m' \<le> created_of m" by blast
    from m(3) have "created_of r \<le> created_of m" by simp
    with True Cons.prems(2) have "created_of best \<le> created_of m" by simp
    with m ck True show ?thesis by auto
  next
    case False
    from Cons.IH [OF st Cons.prems(2)] obtain m where
      m: "max_by_created (best, k) rest = Inr m" "m \<in> set (best # rest)"
         "\<forall>m' \<in> set (best # rest). created_of m' \<le> created_of m" by blast
    from m(3) have "created_of best \<le> created_of m" by simp
    with False Cons.prems(2) have "created_of r \<le> created_of m" by simp
    with m ck False show ?thesis by auto
  qed
qed

lemma last_maintenance_of_max:
  assumes "stamped parse rs" and "rs \<noteq> []"
  shows "\<exists>m. last_maintenance_of rs = Inr m \<and> m \<in> set rs \<and>
           (\<forall>m' \<in> set rs. created_of m' \<le> created_of m)"
proof -
  from assms(2) obtain r rest where rs: "rs = r # rest" by (cases rs) auto
  from assms(1) rs obtain s where s: "map_of r ''created_at'' = Some (JStr s)"
    and st: "stamped parse rest" by (auto simp: stamped_Cons)
  from max_by_created_max [OF st refl, of r] created_key_stamped [OF s] rs
  show ?thesis by (simp add: last_maintenance_of_def)
qed

lemma vehicle_alerts_spec:
  assumes "has_field ''plate_number'' ms" and "stamped parse ms"
    and "map_of vehicle ''plate_number'' = Some plate"
  shows "\<exists>alerts. vehicle_alerts parse now ms vehicle = Inr alerts \<and>
           alerts_as_specified parse now ms vehicle alerts"
proof -
  let ?rs = "filter (\<lambda>m. map_of m ''plate_number'' = Some plate) ms"
  have rp: "records_of_plate plate ms = Inr ?rs"
    using records_of_plate_filter [OF assms(1)] .
  show ?thesis
  proof (cases "?rs = []")
    case True
    then have "vehicle_alerts parse now ms vehicle = Inr [no_records_alert plate]"
      by (simp add: vehicle_alerts_def dict_item_def assms(3) rp no_records_alert_def)
    with True assms(3) show ?thesis
      by (simp add: alerts_as_specified_def)
  next
    case False
    from last_maintenance_of_max [OF stamped_filter [OF assms(2)] False]
    obtain m where m: "last_maintenance_of ?rs = Inr m" "m \<in> set ?rs"
      "\<forall>m' \<in> set ?rs. created_of m' \<le> created_of m" by blast
    from m(2) have "m \<in> set ms" by simp
    from stamped_member [OF assms(2) this] obtain c last_date where
      c: "map_of m ''created_at'' = Some (JStr c)" "parse c = Some last_date" by auto
    then have co: "created_of m = c" by (simp add: created_of_def)
    have gd: "get_default m ''created_at'' (JStr (isoformat now)) = JStr c"
      using c(1) by (simp add: get_default_def)
    obtain r rest where rr: "?rs = r # rest" using False by (cases ?rs) auto
    have "vehicle_alerts parse now ms vehicle =
            Inr (due_alerts plate (timedelta_days now last_date))"
      unfolding vehicle_alerts_def
      by (simp add: dict_item_def assms(3) rp rr m(1) [unfolded rr] gd fromisoformat_def c(2)
          Let_def due_alerts_def overdue_alert_def del: filter.simps)
    with m(2,3) c(2) co False assms(3) show ?thesis
      unfolding alerts_as_specified_def Let_def by auto
  qed
qed

lemma alerts_of_spec:
  assumes "has_field ''plate_number'' ms" and "stamped parse ms"
  shows "has_field ''plate_number'' vehicles \<Longrightarrow>
         \<exists>per. alerts_of parse now ms vehicles = Inr (concat per) \<and>
           list_all2 (alerts_as_specified parse now ms) vehicles per"
proof (induction vehicles)
  case Nil
  then show ?case by simp
next
  case (Cons v vs)
  from Cons.prems obtain plate where p: "map_of v ''plate_number'' = Some plate"
    and wf: "has_field ''plate_number'' vs" by (auto simp: has_field_Cons)
  from vehicle_alerts_spec [OF assms p, of now] obtain a where
    a: "vehicle_alerts parse now ms v = Inr a" "alerts_as_specified parse now ms v a" by blast
  from Cons.IH [OF wf] obtain per where
    per: "alerts_of parse now ms vs = Inr (concat per)"
         "list_all2 (alerts_as_specified parse now ms) vs per" by blast
  have "alerts_of parse now ms (v # vs) = Inr (concat (a # per))"
    using a(1) per(1) by simp
  moreover have "list_all2 (alerts_as_specified parse now ms) (v # vs) (a # per)"
    using a(2) per(2) by simp
  ultimately show ?case by blast
qed

text \<open>
  Claim C6. When every vehicle and every maintenance record has a plate number and every
  maintenance record a creation stamp that parses, \<open>get_maintenance_alerts\<close> returns
  the alerts of the vehicles in order, and those of a vehicle are: one alert of high
  priority when it has no maintenance record; otherwise, for a record of the vehicle
  whose \<open>created_at\<close> is greatest in the lexicographic order of strings and \<open>d\<close> the
  whole days from it to now, no alert when \<open>d \<le> 90\<close>, one of medium priority when
  \<open>91 \<le> d \<le> 180\<close>, and one of high priority when \<open>d > 180\<close>.
\<close>

theorem maintenance_alerts_by_age:
  fixes s :: "'f store"
  assumes "has_field ''plate_number'' (load_data_list (vehicles_file s))"
    and "has_field ''plate_number'' (load_data_list (maintenance_file s))"
    and "stamped parse (load_data_list (maintenance_file s))"
  shows "\<exists>per. get_maintenance_alerts parse now s = Inr (concat per) \<and>
           list_all2 (alerts_as_specified parse now (load_data_list (maintenance_file s)))
             (load_data_list (vehicles_file s)) per"
  using alerts_of_spec [OF assms(2,3,1), of now]
  by (simp add: get_maintenance_alerts_def)

lemma sample_created:
  "parse_isoformat ''2024-02-10T08:00:00'' =
     Some \<lparr>year = 2024, month = 2, day = 10, hour = 8, minute = 0, second = 0, microsecond = 0\<rparr>"
  "parse_isoformat ''2023-10-02T16:45:10.250000'' =
     Some \<lparr>year = 2023, month = 10, day = 2, hour = 16, minute = 45, second = 10,
           microsecond = 250000\<rparr>"
  by (simp_all add: parse_defs)

lemma sample_elapsed:
  "timedelta_days sample_now
     \<lparr>year = 2024, month = 2, day = 10, hour = 8, minute = 0, second = 0, microsecond = 0\<rparr> = 97"
  by (simp add: timedelta_days_def total_microseconds_def sample_now_def ordinal_defs)

lemma str_int_97: "str_int 97 = ''97''"
  by (simp add: str_int_def str_nat.simps digit_char_def)

lemma sample_order: "''2023-10-02T16:45:10.250000'' < ''2024-02-10T08:00:00''"
  by simp

lemma sample_alerts:
  "get_maintenance_alerts parse_isoformat sample_now sample_fleet =
     Inr [overdue_alert (JStr ''ABC-123'') 97 ''medium'', no_records_alert (JStr ''XYZ-789'')]"
  by (simp add: get_maintenance_alerts_def sample_fleet_def initialize_data_files_def
      load_data_list_def vehicle_alerts_def dict_item_def sample_vehicle_def sample_vehicle2_def
      sample_service_def sample_old_service_def last_maintenance_of_def created_key_def
      get_default_def fromisoformat_def sample_created sample_elapsed str_int_97
      overdue_alert_def no_records_alert_def)

theorem maintenance_alerts_by_age_witness:
  "has_field ''plate_number'' (load_data_list (vehicles_file sample_fleet)) \<and>
   has_field ''plate_number'' (load_data_list (maintenance_file sample_fleet)) \<and>
   stamped parse_isoformat (load_data_list (maintenance_file sample_fleet)) \<and>
   (\<exists>per. [overdue_alert (JStr ''ABC-123'') 97 ''medium'', no_records_alert (JStr ''XYZ-789'')] =
            concat per \<and>
          list_all2
            (alerts_as_specified parse_isoformat sample_now
               (load_data_list (maintenance_file sample_fleet)))
            (load_data_list (vehicles_file sample_fleet)) per)"
proof -
  have h1: "has_field ''plate_number'' (load_data_list (vehicles_file sample_fleet))"
    by (simp add: has_field_def sample_fleet_def load_data_list_def sample_vehicle_def
        sample_vehicle2_def)
  have h2: "has_field ''plate_number'' (load_data_list (maintenance_file sample_fleet))"
    by (simp add: has_field_def sample_fleet_def load_data_list_def sample_service_def
        sample_old_service_def)
  have h3: "stamped parse_isoformat (load_data_list (maintenance_file sample_fleet))"
    by (simp add: stamped_def sample_fleet_def load_data_list_def sample_service_def
        sample_old_service_def sample_created)
  from maintenance_alerts_by_age [OF h1 h2 h3, of sample_now] h1 h2 h3 show ?thesis
    by (simp only: sample_alerts sum.inject)
qed

lemma vehicle_alerts_shape:
  "vehicle_alerts parse now ms v = Inr as \<Longrightarrow> \<forall>a \<in> set as. alert_shape a"
  unfolding vehicle_alerts_def Let_def
  by (auto simp: alert_shape_def split: sum.splits list.splits if_splits)

lemma alerts_of_shape:
  "alerts_of parse now ms vs = Inr as \<Longrightarrow> \<forall>a \<in> set as. alert_shape a"
proof (induction vs arbitrary: as)
  case Nil
  then show ?case by simp
next
  case (Cons v vs)
  from Cons.prems obtain a rest where
    a: "vehicle_alerts parse now ms v = Inr a" and
    r: "alerts_of parse now ms vs = Inr rest" and as: "as = a @ rest"
    by (auto split: sum.splits)
  from vehicle_alerts_shape [OF a] Cons.IH [OF r] as show ?case by auto
qed

lemma alert_warnings_fail:
  assumes "as \<noteq> []" and "\<forall>a \<in> set as. alert_shape a"
  shows "alert_warnings as = Inl (KeyError ''alert_type'')"
proof -
  from assms(1) obtain a rest where as: "as = a # rest" by (cases as) auto
  with assms(2) have sh: "alert_shape a" by simp
  then obtain e es where a: "a = e # es" "fst e = ''plate_number''"
    by (cases a) (auto simp: alert_shape_def)
  then have "map_of a ''plate_number'' = Some (snd e)" by (cases e) simp
  moreover from sh have "map_of a ''alert_type'' = None" by (simp add: alert_shape_def)
  ultimately show ?thesis by (simp add: as dict_item_def)
qed

text \<open>
  Claim C10. Every alert that \<open>get_maintenance_alerts\<close> returns has the three fields
  \<open>plate_number\<close>, \<open>alert\<close> and \<open>priority\<close>, with priority high or medium, and no
  field \<open>alert_type\<close>; so \<open>show_maintenance_alerts\<close>, which reads
  \<open>alert['alert_type']\<close>, fails with \<open>KeyError\<close> whenever the list is not empty.
\<close>

theorem alerts_have_no_alert_type:
  assumes "get_maintenance_alerts parse now s = Inr alerts"
  shows "(\<forall>a \<in> set alerts.
            map fst a = [''plate_number'', ''alert'', ''priority''] \<and>
            (map_of a ''priority'' = Some (JStr ''high'') \<or>
             map_of a ''priority'' = Some (JStr ''medium'')) \<and>
            map_of a ''alert_type'' = None) \<and>
         (alerts \<noteq> [] \<longrightarrow>
            show_maintenance_alerts parse now s = Inl (KeyError ''alert_type''))"
proof -
  from assms have sh: "\<forall>a \<in> set alerts. alert_shape a"
    unfolding get_maintenance_alerts_def by (rule alerts_of_shape)
  then have "alerts \<noteq> [] \<longrightarrow> alert_warnings alerts = Inl (KeyError ''alert_type'')"
    using alert_warnings_fail by blast
  with assms have w: "alerts \<noteq> [] \<longrightarrow>
                        show_maintenance_alerts parse now s = Inl (KeyError ''alert_type'')"
    by (simp add: show_maintenance_alerts_def)
  from sh [unfolded alert_shape_def] w show ?thesis by (rule conjI)
qed

theorem alerts_have_no_alert_type_witness:
  "get_maintenance_alerts parse_isoformat sample_now sample_fleet =
     Inr [overdue_alert (JStr ''ABC-123'') 97 ''medium'', no_records_alert (JStr ''XYZ-789'')] \<and>
   show_maintenance_alerts parse_isoformat sample_now sample_fleet =
     Inl (KeyError ''alert_type'')"
  using alerts_have_no_alert_type [OF sample_alerts] sample_alerts by simp

section \<open>Loads: derived fields and load numbers\<close>

lemma digit_value_digit_char: "d < 10 \<Longrightarrow> digit_value (digit_char d) = Some d"
proof -
  assume "d < 10"
  then have "d \<in> {0, 1, 2, 3, 4, 5, 6, 7, 8, 9}" by auto
  then show ?thesis
    by (auto simp: digit_value_def digit_char_def)
qed

lemma read_digits_snoc:
  "read_digits acc (xs @ [c]) =
     (case read_digits acc xs of
        None \<Rightarrow> None
      | Some a \<Rightarrow> (case digit_value c of None \<Rightarrow> None | Some d \<Rightarrow> Some (10 * a + d)))"
  by (induction xs arbitrary: acc) (auto split: option.splits)

lemma read_digits_str_nat: "read_digits 0 (str_nat n) = Some n"
proof (induction n rule: str_nat.induct)
  case (1 n)
  show ?case
  proof (cases "n < 10")
    case True
    then show ?thesis
      by (subst str_nat.simps) (simp add: digit_value_digit_char)
  next
    case False
    have "n mod 10 < 10" by simp
    with False "1.IH" show ?thesis
      by (subst str_nat.simps) (simp add: read_digits_snoc digit_value_digit_char)
  qed
qed

lemma read_digits_zeros: "read_digits 0 (replicate k (CHR ''0'') @ s) = read_digits 0 s"
  by (induction k) (simp_all add: digit_value_def)

lemma str_nat_nonempty: "str_nat n \<noteq> []"
  by (subst str_nat.simps) simp

lemma read_nat_zfill: "read_nat (zfill w n) = Some n"
  by (simp add: read_nat_def zfill_def str_nat_nonempty read_digits_zeros read_digits_str_nat)

lemma length_str_nat: "0 < k \<Longrightarrow> n < 10 ^ k \<Longrightarrow> length (str_nat n) \<le> k"
proof (induction n arbitrary: k rule: str_nat.induct)
  case (1 n)
  show ?case
  proof (cases "n < 10")
    case True
    with "1.prems" show ?thesis by (subst str_nat.simps) simp
  next
    case False
    with "1.prems" obtain j where k: "k = Suc j" by (cases k) auto
    with False "1.prems" have j: "0 < j" by (cases j) auto
    from "1.prems" k have "n div 10 < 10 ^ j"
      by (simp add: less_mult_imp_div_less mult.commute)
    from "1.IH" [OF False j this] k False show ?thesis
      by (subst str_nat.simps) simp
  qed
qed

lemma length_zfill: "n < 1000000 \<Longrightarrow> length (zfill 6 n) = 6"
  using length_str_nat [of 6 n] by (simp add: zfill_def)

lemma length_zfill_ge: "6 \<le> length (zfill 6 n)"
  by (simp add: zfill_def)

lemma add_load_eq:
  "add_load now s load_data =
     ((True, ''Load '' @ ''LD'' @ zfill 6 (length (load_data_list (loads_file s)) + 1) @
               '' added successfully''),
      s\<lparr>loads_file := Some (load_data_list (loads_file s) @
          [dict_set (dict_set (dict_set load_data ''load_number''
              (JStr (''LD'' @ zfill 6 (length (load_data_list (loads_file s)) + 1))))
              ''created_at'' (JStr (isoformat now)))
              ''id'' (JInt (int (length (load_data_list (loads_file s))) + 1))])\<rparr>)"
  by (simp add: add_load_def Let_def)

lemma form_accepts:
  fixes s :: "('f::{zero,minus,times,linorder}) store"
  assumes "fst (fst (show_add_load_form now s f))"
  shows "lf_tare_weight f < lf_gross_weight f"
    and "show_add_load_form now s f =
           add_load now s
             (load_form_data now
                (''LD'' @ zfill 6 (length (load_data_list (loads_file s)) + 1)) f)"
proof -
  from assms have ok:
    "load_data_list (vehicles_file s) \<noteq> []"
    "\<not> net_weight_of f \<le> 0"
    and res: "show_add_load_form now s f =
           add_load now s
             (load_form_data now
                (''LD'' @ zfill 6 (length (load_data_list (loads_file s)) + 1)) f)"
    by (auto simp: show_add_load_form_def Let_def split: if_splits)
  from ok(2) show "lf_tare_weight f < lf_gross_weight f"
    by (auto simp: net_weight_of_def split: if_splits)
  from res show "show_add_load_form now s f =
           add_load now s
             (load_form_data now
                (''LD'' @ zfill 6 (length (load_data_list (loads_file s)) + 1)) f)" .
qed

lemma stored_load_fields:
  fixes f :: "('f::{zero,minus,times,linorder}) load_form"
  assumes "lf_tare_weight f < lf_gross_weight f"
    and "ld = dict_set (dict_set (dict_set (load_form_data now number0 f) ''load_number''
              (JStr number)) ''created_at'' (JStr stamp)) ''id'' (JInt i)"
  shows "map_of ld ''gross_weight'' = Some (JFloat (lf_gross_weight f))"
    "map_of ld ''tare_weight'' = Some (JFloat (lf_tare_weight f))"
    "map_of ld ''rate_per_unit'' = Some (JFloat (lf_rate_per_unit f))"
    "map_of ld ''advance_payment'' = Some (JFloat (lf_advance_payment f))"
    "map_of ld ''net_weight'' = Some (JFloat (lf_gross_weight f - lf_tare_weight f))"
    "map_of ld ''amount'' =
       Some (JFloat ((lf_gross_weight f - lf_tare_weight f) * lf_rate_per_unit f))"
    "map_of ld ''pending_amount'' =
       Some (JFloat ((lf_gross_weight f - lf_tare_weight f) * lf_rate_per_unit f
                       - lf_advance_payment f))"
    "map_of ld ''load_number'' = Some (JStr number)"
    "map_of ld ''id'' = Some (JInt i)"
  using assms(1) unfolding assms(2)
  by (simp_all add: map_of_dict_set load_form_data_def net_weight_of_def amount_of_def
      pending_amount_of_def)

text \<open>
  Claim C9, as amended. Every load that the load form stores has
  \<open>net_weight = gross_weight - tare_weight\<close>, \<open>amount = net_weight * rate_per_unit\<close>
  and \<open>pending_amount = amount - advance_payment\<close>, computed with the operations of
  the floats, and its \<open>load_number\<close> is \<open>LD\<close> followed by the decimal numeral of the
  previous number of loads plus one, padded with zeros on the left to at least six
  digits: it reads back as that number, has exactly six digits below 1000000 and is
  longer from there on.
\<close>

theorem load_derived_fields:
  fixes s :: "('f::{zero,minus,times,linorder}) store"
  assumes "fst (fst (show_add_load_form now s f))"
  shows "(\<exists>ld. show_add_load_form now s f =
                 ((True, ''Load '' @ ''LD'' @
                         zfill 6 (length (load_data_list (loads_file s)) + 1) @
                         '' added successfully''),
                  s\<lparr>loads_file := Some (load_data_list (loads_file s) @ [ld])\<rparr>) \<and>
               map_of ld ''gross_weight'' = Some (JFloat (lf_gross_weight f)) \<and>
               map_of ld ''tare_weight'' = Some (JFloat (lf_tare_weight f)) \<and>
               map_of ld ''rate_per_unit'' = Some (JFloat (lf_rate_per_unit f)) \<and>
               map_of ld ''advance_payment'' = Some (JFloat (lf_advance_payment f)) \<and>
               map_of ld ''net_weight'' =
                 Some (JFloat (lf_gross_weight f - lf_tare_weight f)) \<and>
               map_of ld ''amount'' =
                 Some (JFloat ((lf_gross_weight f - lf_tare_weight f) * lf_rate_per_unit f)) \<and>
               map_of ld ''pending_amount'' =
                 Some (JFloat ((lf_gross_weight f - lf_tare_weight f) * lf_rate_per_unit f
                                 - lf_advance_payment f)) \<and>
               map_of ld ''load_number'' =
                 Some (JStr (''LD'' @ zfill 6 (length (load_data_list (loads_file s)) + 1))) \<and>
               map_of ld ''id'' =
                 Some (JInt (int (length (load_data_list (loads_file s))) + 1))) \<and>
         (\<forall>n. read_nat (zfill 6 n) = Some n \<and> 6 \<le> length (zfill 6 n) \<and>
              (n < 1000000 \<longrightarrow> length (zfill 6 n) = 6))"
proof -
  let ?n = "length (load_data_list (loads_file s))"
  let ?number = "''LD'' @ zfill 6 (?n + 1)"
  let ?ld = "dict_set (dict_set (dict_set (load_form_data now ?number f) ''load_number''
              (JStr ?number)) ''created_at'' (JStr (isoformat now)))
              ''id'' (JInt (int ?n + 1))"
  note acc = form_accepts [OF assms]
  have res: "show_add_load_form now s f =
               ((True, ''Load '' @ ''LD'' @ zfill 6 (?n + 1) @ '' added successfully''),
                s\<lparr>loads_file := Some (load_data_list (loads_file s) @ [?ld])\<rparr>)"
    unfolding acc(2) by (rule add_load_eq)
  note fields = stored_load_fields [OF acc(1) refl, of now ?number ?number "isoformat now"
      "int ?n + 1"]
  have digits: "\<forall>n. read_nat (zfill 6 n) = Some n \<and> 6 \<le> length (zfill 6 n) \<and>
              (n < 1000000 \<longrightarrow> length (zfill 6 n) = 6)"
    by (simp add: read_nat_zfill length_zfill length_zfill_ge)
  from res fields digits show ?thesis by blast
qed

lemma sample_load_accepted:
  "fst (fst (show_add_load_form sample_now sample_store sample_load_form))"
  by (simp add: show_add_load_form_def sample_store_def initialize_data_files_def
      load_data_list_def sample_load_form_def net_weight_of_def Let_def add_load_def)

lemma replicate_5: "replicate 5 c = [c, c, c, c, c]"
  by (simp add: eval_nat_numeral)

lemma str_nat_1: "str_nat (Suc 0) = ''1''"
  by (subst str_nat.simps) (simp add: digit_char_def)

lemma zfill_1: "zfill 6 (Suc 0) = ''000001''"
  by (simp add: zfill_def str_nat_1 replicate_5)

theorem load_derived_fields_witness:
  "fst (fst (show_add_load_form sample_now sample_store sample_load_form)) \<and>
   (\<exists>ld. snd (show_add_load_form sample_now sample_store sample_load_form) =
            sample_store\<lparr>loads_file := Some [ld]\<rparr> \<and>
          map_of ld ''net_weight'' = Some (JFloat 6000) \<and>
          map_of ld ''amount'' = Some (JFloat 15000) \<and>
          map_of ld ''pending_amount'' = Some (JFloat 10000) \<and>
          map_of ld ''load_number'' = Some (JStr ''LD000001''))"
proof -
  note h = sample_load_accepted
  have n: "load_data_list (loads_file sample_store) = []"
    by (simp add: sample_store_def initialize_data_files_def load_data_list_def)
  from load_derived_fields [OF h, THEN conjunct1] obtain ld where
    ld: "show_add_load_form sample_now sample_store sample_load_form =
           ((True, ''Load '' @ ''LD'' @
                   zfill 6 (length (load_data_list (loads_file sample_store)) + 1) @
                   '' added successfully''),
            sample_store\<lparr>loads_file :=
              Some (load_data_list (loads_file sample_store) @ [ld])\<rparr>)"
        "map_of ld ''net_weight'' =
           Some (JFloat (lf_gross_weight sample_load_form - lf_tare_weight sample_load_form))"
        "map_of ld ''amount'' =
           Some (JFloat ((lf_gross_weight sample_load_form - lf_tare_weight sample_load_form)
                          * lf_rate_per_unit sample_load_form))"
        "map_of ld ''pending_amount'' =
           Some (JFloat ((lf_gross_weight sample_load_form - lf_tare_weight sample_load_form)
                          * lf_rate_per_unit sample_load_form
                          - lf_advance_payment sample_load_form))"
        "map_of ld ''load_number'' =
           Some (JStr (''LD'' @ zfill 6 (length (load_data_list (loads_file sample_store)) + 1)))"
    by blast
  from ld(1) have a: "snd (show_add_load_form sample_now sample_store sample_load_form) =
            sample_store\<lparr>loads_file := Some [ld]\<rparr>"
    by (simp add: n)
  from ld(5) have b: "map_of ld ''load_number'' = Some (JStr ''LD000001'')"
    by (simp add: n zfill_1)
  from ld(2,3,4) have c: "map_of ld ''net_weight'' = Some (JFloat 6000)"
    "map_of ld ''amount'' = Some (JFloat 15000)"
    "map_of ld ''pending_amount'' = Some (JFloat 10000)"
    by (simp_all add: sample_load_form_def)
  show ?thesis
  proof (intro conjI exI)
    show "fst (fst (show_add_load_form sample_now sample_store sample_load_form))" by (rule h)
    show "snd (show_add_load_form sample_now sample_store sample_load_form) =
            sample_store\<lparr>loads_file := Some [ld]\<rparr>" by (rule a)
    show "map_of ld ''net_weight'' = Some (JFloat 6000)" by (rule c(1))
    show "map_of ld ''amount'' = Some (JFloat 15000)" by (rule c(2))
    show "map_of ld ''pending_amount'' = Some (JFloat 10000)" by (rule c(3))
    show "map_of ld ''load_number'' = Some (JStr ''LD000001'')" by (rule b)
  qed
qed

lemma zfill_million: "zfill 6 1000000 = ''1000000''"
  by (simp add: zfill_def str_nat.simps digit_char_def)

text \<open>
  With 999999 loads in the store the next load number is \<open>LD1000000\<close>: seven digits
  after the prefix, not six.
\<close>

theorem load_number_counterexample:
  "map_of (last (load_data_list (loads_file (snd (add_load sample_now crowded_store [])))))
     ''load_number'' = Some (JStr ''LD1000000'') \<and>
   length ''1000000'' \<noteq> (6 :: nat)"
  by (simp add: add_load_eq crowded_store_def initialize_data_files_def load_data_list_def
      map_of_dict_set zfill_million)

end
